theory Spec2Isabelle
  imports Complex_Main "HOL-Library.Char_ord" "HOL-Library.List_Lexorder"
begin

section \<open>Data model of the booking database (001\_initial\_schema.sql)\<close>

text \<open>
  Identifiers (UUID) are natural numbers. A DATE is the number of days since
  2000-01-01, which was a Saturday. A TIME is the number of seconds since midnight;
  the database functions only compare times. DECIMAL values are exact rationals:
  PostgreSQL's numeric arithmetic (addition, multiplication, division by 100 of a
  decimal with few fractional digits) is exact on the values handled here, and a
  value is rounded only where the source says so: by \<open>ROUND(x, 2)\<close> and when it is
  stored into a column declared \<open>DECIMAL(p, s)\<close>. A nullable column is an
  \<open>option\<close>, with \<open>None\<close> for NULL.
\<close>

type_synonym uuid = nat
type_synonym date = int
type_synonym time = nat
type_synonym decimal = rat
type_synonym timestamp = nat

datatype user_role = Customer | Member | Staff | Admin | Superadmin
datatype reservation_status = Pending | Confirmed | Cancelled | Completed
datatype payment_status = PaymentPending | Paid | Failed | Refunded

record profile =
  p_id :: uuid
  p_role :: "user_role option"

record venue =
  v_id :: uuid
  v_base_price :: decimal
  v_weekend_price :: "decimal option"
  v_is_active :: "bool option"

record venue_time_slot =
  vts_id :: uuid
  vts_venue_id :: uuid
  vts_start_time :: time
  vts_end_time :: time
  vts_is_available :: "bool option"
  vts_price_multiplier :: "decimal option"

record reservation =
  r_id :: uuid
  r_reservation_code :: string
  r_user_id :: uuid
  r_venue_id :: uuid
  r_venue_time_slot_id :: uuid
  r_reservation_date :: date
  r_start_time :: time
  r_end_time :: time
  r_duration_hours :: decimal
  r_base_price :: decimal
  r_discount_percentage :: "decimal option"
  r_total_price :: decimal
  r_status :: "reservation_status option"
  r_payment_status :: "payment_status option"
  r_notes :: "string option"
  r_created_at :: timestamp
  r_updated_at :: timestamp

text \<open>
  The tables, each in scan order. A table is the list of rows that the executing
  function reads and writes; the row-level security policies, which decide per role
  which rows those are, are a layer of their own and not part of this model.
\<close>

record db =
  profiles :: "profile list"
  venues :: "venue list"
  venue_time_slots :: "venue_time_slot list"
  reservations :: "reservation list"

section \<open>check\_venue\_availability (003\_database\_functions.sql)\<close>

text \<open>
  The WHERE clause of the conflict query. A NULL status makes
  \<open>r.status IN ('confirmed', 'pending')\<close> NULL, so the row is not counted.
\<close>

definition conflicts :: "uuid \<Rightarrow> date \<Rightarrow> time \<Rightarrow> time \<Rightarrow> uuid option \<Rightarrow> reservation \<Rightarrow> bool" where
  "conflicts p_venue_id p_date p_start_time p_end_time p_exclude_reservation_id r \<longleftrightarrow>
     r_venue_id r = p_venue_id
     \<and> r_reservation_date r = p_date
     \<and> (r_status r = Some Confirmed \<or> r_status r = Some Pending)
     \<and> (r_start_time r < p_end_time \<and> r_end_time r > p_start_time)
     \<and> (p_exclude_reservation_id = None \<or> Some (r_id r) \<noteq> p_exclude_reservation_id)"

definition check_venue_availability ::
  "db \<Rightarrow> uuid \<Rightarrow> date \<Rightarrow> time \<Rightarrow> time \<Rightarrow> uuid option \<Rightarrow> bool" where
  "check_venue_availability d p_venue_id p_date p_start_time p_end_time p_exclude_reservation_id =
     (let conflict_count =
            length (filter (conflicts p_venue_id p_date p_start_time p_end_time
                              p_exclude_reservation_id) (reservations d))
      in conflict_count = 0)"

section \<open>Numeric and text helpers of the SQL functions\<close>

text \<open>
  \<open>ROUND(x, s)\<close> on a numeric rounds to \<open>s\<close> fractional digits, ties away from zero.
  Storing into a \<open>DECIMAL(p, s)\<close> column rounds the same way and fails when the rounded
  value needs more than \<open>p - s\<close> integer digits.
\<close>

definition ROUND :: "decimal \<Rightarrow> nat \<Rightarrow> decimal" where
  "ROUND x s = sgn x * of_int \<lfloor>\<bar>x\<bar> * 10 ^ s + 1 / 2\<rfloor> / 10 ^ s"

definition to_decimal_column :: "nat \<Rightarrow> nat \<Rightarrow> decimal \<Rightarrow> decimal option" where
  "to_decimal_column p s x =
     (let v = ROUND x s in if \<bar>v\<bar> \<ge> 10 ^ (p - s) then None else Some v)"

text \<open>\<open>EXTRACT(DOW FROM d)\<close>: 0 is Sunday, 6 is Saturday; day 0 is a Saturday.\<close>

definition DOW :: "date \<Rightarrow> int" where
  "DOW d = (d + 6) mod 7"

text \<open>The decimal text of a non-negative whole number, and \<open>LPAD(s, n, c)\<close>.\<close>

fun nat_to_text :: "nat \<Rightarrow> string" where
  "nat_to_text n =
     (if n < 10 then [''0123456789'' ! n]
      else nat_to_text (n div 10) @ [''0123456789'' ! (n mod 10)])"

definition LPAD :: "string \<Rightarrow> nat \<Rightarrow> char \<Rightarrow> string" where
  "LPAD s n c = (if n \<le> length s then take n s else replicate (n - length s) c @ s)"

section \<open>Errors\<close>

text \<open>
  \<open>RAISE EXCEPTION 'message'\<close> carries its message; the other constructors are the
  errors the INSERT raises when the row breaks a declaration of the schema. The three
  precondition failures of the creation procedure and the two of the cancellation are
  told apart by their message texts.
\<close>

datatype error =
    RaiseException string
  | NumericFieldOverflow string
  | StringTooLong string
  | NotNullViolation string
  | CheckViolation string
  | UniqueViolation string
  | ForeignKeyViolation string

definition VenueUnavailable :: error where
  "VenueUnavailable = RaiseException ''Venue not found or inactive''"

definition SlotUnavailable :: error where
  "SlotUnavailable = RaiseException ''Time slot not available''"

definition SlotAlreadyBooked :: error where
  "SlotAlreadyBooked = RaiseException ''Time slot is already booked''"

definition ReservationNotFound :: error where
  "ReservationNotFound = RaiseException ''Reservation not found''"

definition Unauthorized :: error where
  "Unauthorized = RaiseException ''Unauthorized to cancel this reservation''"

section \<open>generate\_reservation\_code\<close>

text \<open>
  The loop draws \<open>FLOOR(RANDOM() * 10000)\<close> once per round. The draws the random
  generator will deliver are given as a list, \<open>today\<close> is \<open>TO_CHAR(NOW(), 'YYYYMMDD')\<close>.
  The loop has no bound of its own: \<open>None\<close> means that every given draw collided, so the
  loop is still running when the draws are used up.
\<close>

definition reservation_code_of :: "string \<Rightarrow> nat \<Rightarrow> string" where
  "reservation_code_of today k = ''OSC'' @ today @ LPAD (nat_to_text k) 4 CHR ''0''"

fun generate_reservation_code :: "db \<Rightarrow> string \<Rightarrow> nat list \<Rightarrow> string option" where
  "generate_reservation_code d today [] = None"
| "generate_reservation_code d today (k # ks) =
     (let code = reservation_code_of today k;
          exists = (length (filter (\<lambda>r. r_reservation_code r = code) (reservations d)) > 0)
      in if exists then generate_reservation_code d today ks else Some code)"

section \<open>calculate\_venue\_price\<close>

text \<open>
  \<open>SELECT ... INTO\<close> takes the first row of the result and sets its targets to NULL when
  there is no row. So a venue that is missing or inactive leaves \<open>base_price\<close> NULL
  (the column itself is NOT NULL) and the function raises; a start time that no
  available slot of the venue contains leaves \<open>time_multiplier\<close> NULL, the product is
  NULL and the function returns NULL (\<open>Inr None\<close>), without raising.

  The slot query ends with \<open>LIMIT 1\<close> and has no \<open>ORDER BY\<close>: of several matching slots
  it returns the one that the scan produces first. \<open>venue_time_slots d\<close> lists the rows in
  the order in which the scan produces them, an order that the query does not fix, and
  the properties of the price are stated for every order.
\<close>

definition slot_contains :: "uuid \<Rightarrow> time \<Rightarrow> venue_time_slot \<Rightarrow> bool" where
  "slot_contains p_venue_id p_start_time vts \<longleftrightarrow>
     vts_venue_id vts = p_venue_id
     \<and> vts_start_time vts \<le> p_start_time
     \<and> vts_end_time vts > p_start_time
     \<and> vts_is_available vts = Some True"

definition COALESCE :: "'a option \<Rightarrow> 'a \<Rightarrow> 'a" where
  "COALESCE x y = (case x of None \<Rightarrow> y | Some v \<Rightarrow> v)"

definition calculate_venue_price ::
  "db \<Rightarrow> uuid \<Rightarrow> date \<Rightarrow> time \<Rightarrow> decimal \<Rightarrow> error + decimal option" where
  "calculate_venue_price d p_venue_id p_date p_start_time p_duration_hours =
     (case find (\<lambda>v. v_id v = p_venue_id \<and> v_is_active v = Some True) (venues d) of
        None \<Rightarrow> Inl (RaiseException ''Venue not found or inactive'')
      | Some v \<Rightarrow>
          (let base_price = v_base_price v;
               weekend_price = v_weekend_price v;
               is_weekend = (DOW p_date = 0 \<or> DOW p_date = 6);
               time_multiplier =
                 map_option (\<lambda>vts. COALESCE (vts_price_multiplier vts) 1)
                   (find (slot_contains p_venue_id p_start_time) (venue_time_slots d));
               final_price =
                 (case (is_weekend, weekend_price) of
                    (True, Some w) \<Rightarrow> map_option (\<lambda>m. w * m * p_duration_hours) time_multiplier
                  | _ \<Rightarrow> map_option (\<lambda>m. base_price * m * p_duration_hours) time_multiplier)
           in Inr (map_option (\<lambda>p. ROUND p 2) final_price)))"

section \<open>create\_reservation\<close>

text \<open>
  What the session supplies to one call: \<open>NOW()\<close>, its rendering
  \<open>TO_CHAR(NOW(), 'YYYYMMDD')\<close>, the draws of \<open>RANDOM()\<close> and the value of
  \<open>uuid_generate_v4()\<close> for the new row.
\<close>

record env =
  now :: timestamp
  today :: string
  random_draws :: "nat list"
  new_uuid :: uuid

text \<open>
  The INSERT of \<open>create_reservation\<close>. The values are first converted to the column
  types (\<open>reservation_code VARCHAR(20)\<close>, \<open>duration_hours DECIMAL(3,1)\<close>,
  \<open>base_price\<close> and \<open>total_price DECIMAL(10,2)\<close>, \<open>discount_percentage DECIMAL(5,2)\<close>),
  then the NOT NULL and CHECK constraints of the table are tested on the converted row,
  then the primary key and the unique code, then the foreign keys. The columns the
  statement does not list take their defaults: \<open>status\<close> and \<open>payment_status\<close>
  \<open>'pending'\<close>, the two timestamps \<open>NOW()\<close>.
\<close>

definition new_reservation_row ::
  "env \<Rightarrow> string \<Rightarrow> uuid \<Rightarrow> uuid \<Rightarrow> uuid \<Rightarrow> date \<Rightarrow> time \<Rightarrow> time \<Rightarrow> decimal
     \<Rightarrow> decimal \<Rightarrow> decimal \<Rightarrow> decimal \<Rightarrow> string option \<Rightarrow> reservation" where
  "new_reservation_row e reservation_code p_user_id p_venue_id p_venue_time_slot_id
       p_reservation_date p_start_time p_end_time duration_hours base_price
       discount_percentage total_price p_notes =
     \<lparr>r_id = new_uuid e,
      r_reservation_code = reservation_code,
      r_user_id = p_user_id,
      r_venue_id = p_venue_id,
      r_venue_time_slot_id = p_venue_time_slot_id,
      r_reservation_date = p_reservation_date,
      r_start_time = p_start_time,
      r_end_time = p_end_time,
      r_duration_hours = duration_hours,
      r_base_price = base_price,
      r_discount_percentage = Some discount_percentage,
      r_total_price = total_price,
      r_status = Some Pending,
      r_payment_status = Some PaymentPending,
      r_notes = p_notes,
      r_created_at = now e,
      r_updated_at = now e\<rparr>"

definition insert_reservation ::
  "env \<Rightarrow> db \<Rightarrow> string \<Rightarrow> uuid \<Rightarrow> uuid \<Rightarrow> uuid \<Rightarrow> date \<Rightarrow> time \<Rightarrow> time \<Rightarrow> decimal
     \<Rightarrow> decimal option \<Rightarrow> decimal \<Rightarrow> decimal option \<Rightarrow> string option \<Rightarrow> error + uuid \<times> db" where
  "insert_reservation e d reservation_code p_user_id p_venue_id p_venue_time_slot_id
       p_reservation_date p_start_time p_end_time p_duration_hours base_price
       p_discount_percentage total_price p_notes =
     (if length reservation_code > 20 then Inl (StringTooLong ''reservation_code'')
      else case to_decimal_column 3 1 p_duration_hours of
        None \<Rightarrow> Inl (NumericFieldOverflow ''duration_hours'')
      | Some duration_hours \<Rightarrow>
      (case map_option (to_decimal_column 10 2) base_price of
        Some None \<Rightarrow> Inl (NumericFieldOverflow ''base_price'')
      | None \<Rightarrow> Inl (NotNullViolation ''base_price'')
      | Some (Some base_price') \<Rightarrow>
      (case to_decimal_column 5 2 p_discount_percentage of
        None \<Rightarrow> Inl (NumericFieldOverflow ''discount_percentage'')
      | Some discount_percentage \<Rightarrow>
      (case map_option (to_decimal_column 10 2) total_price of
        Some None \<Rightarrow> Inl (NumericFieldOverflow ''total_price'')
      | None \<Rightarrow> Inl (NotNullViolation ''total_price'')
      | Some (Some total_price') \<Rightarrow>
          if \<not> p_start_time < p_end_time then Inl (CheckViolation ''valid_time_range'')
          else if \<not> (discount_percentage \<ge> 0 \<and> discount_percentage \<le> 100)
            then Inl (CheckViolation ''valid_discount'')
          else if \<exists>r \<in> set (reservations d). r_id r = new_uuid e
            then Inl (UniqueViolation ''reservations_pkey'')
          else if \<exists>r \<in> set (reservations d). r_reservation_code r = reservation_code
            then Inl (UniqueViolation ''reservations_reservation_code_key'')
          else if \<not> (\<exists>p \<in> set (profiles d). p_id p = p_user_id)
            then Inl (ForeignKeyViolation ''user_id'')
          else if \<not> (\<exists>v \<in> set (venues d). v_id v = p_venue_id)
            then Inl (ForeignKeyViolation ''venue_id'')
          else if \<not> (\<exists>vts \<in> set (venue_time_slots d). vts_id vts = p_venue_time_slot_id)
            then Inl (ForeignKeyViolation ''venue_time_slot_id'')
          else
            Inr (new_uuid e,
                 d\<lparr>reservations := reservations d @
                     [new_reservation_row e reservation_code p_user_id p_venue_id
                        p_venue_time_slot_id p_reservation_date p_start_time p_end_time
                        duration_hours base_price' discount_percentage total_price'
                        p_notes]\<rparr>)))))"

text \<open>
  The procedure returns the outcome (an error or the new row's id) together with the
  database after the call; \<open>None\<close> stands for a call whose code generation loop has not
  ended on the given draws. An exception leaves the database as it was.
\<close>

definition create_reservation ::
  "env \<Rightarrow> db \<Rightarrow> uuid \<Rightarrow> uuid \<Rightarrow> uuid \<Rightarrow> date \<Rightarrow> time \<Rightarrow> time \<Rightarrow> decimal \<Rightarrow> decimal
     \<Rightarrow> string option \<Rightarrow> ((error + uuid) \<times> db) option" where
  "create_reservation e d p_user_id p_venue_id p_venue_time_slot_id p_reservation_date
       p_start_time p_end_time p_duration_hours p_discount_percentage p_notes =
     (if \<not> (\<exists>v \<in> set (venues d). v_id v = p_venue_id \<and> v_is_active v = Some True)
        then Some (Inl (RaiseException ''Venue not found or inactive''), d)
      else if \<not> (\<exists>vts \<in> set (venue_time_slots d).
                    vts_id vts = p_venue_time_slot_id
                    \<and> vts_venue_id vts = p_venue_id
                    \<and> vts_is_available vts = Some True)
        then Some (Inl (RaiseException ''Time slot not available''), d)
      else if \<not> check_venue_availability d p_venue_id p_reservation_date
                   p_start_time p_end_time None
        then Some (Inl (RaiseException ''Time slot is already booked''), d)
      else
        (case calculate_venue_price d p_venue_id p_reservation_date p_start_time
                p_duration_hours of
           Inl err \<Rightarrow> Some (Inl err, d)
         | Inr base_price \<Rightarrow>
             (let total_price =
                    map_option (\<lambda>b. b * (1 - p_discount_percentage / 100)) base_price
              in case generate_reservation_code d (today e) (random_draws e) of
                   None \<Rightarrow> None
                 | Some reservation_code \<Rightarrow>
                     (case insert_reservation e d reservation_code p_user_id p_venue_id
                             p_venue_time_slot_id p_reservation_date p_start_time p_end_time
                             p_duration_hours base_price p_discount_percentage total_price
                             p_notes of
                        Inl err \<Rightarrow> Some (Inl err, d)
                      | Inr (reservation_id, d') \<Rightarrow> Some (Inr reservation_id, d')))))"

section \<open>cancel\_reservation\<close>

text \<open>
  \<open>p.role IN ('staff', 'admin', 'superadmin')\<close> is NULL for a NULL role, which the OR
  with a false ownership test does not make true. The UPDATE touches the rows with
  the given id whose status is pending or confirmed; \<open>FOUND\<close> tells whether there was one.
\<close>

definition elevated :: "user_role option \<Rightarrow> bool" where
  "elevated ro \<longleftrightarrow> ro = Some Staff \<or> ro = Some Admin \<or> ro = Some Superadmin"

definition cancellable :: "reservation \<Rightarrow> bool" where
  "cancellable r \<longleftrightarrow> r_status r = Some Pending \<or> r_status r = Some Confirmed"

definition cancel_reservation ::
  "timestamp \<Rightarrow> db \<Rightarrow> uuid \<Rightarrow> uuid \<Rightarrow> (error + bool) \<times> db" where
  "cancel_reservation now_ts d p_reservation_id p_user_id =
     (let reservation_exists = (\<exists>r \<in> set (reservations d). r_id r = p_reservation_id);
          user_owns_reservation =
            (\<exists>r \<in> set (reservations d). \<exists>p \<in> set (profiles d).
               p_id p = p_user_id \<and> r_id r = p_reservation_id
               \<and> (r_user_id r = p_user_id \<or> elevated (p_role p)))
      in if \<not> reservation_exists then (Inl (RaiseException ''Reservation not found''), d)
         else if \<not> user_owns_reservation
           then (Inl (RaiseException ''Unauthorized to cancel this reservation''), d)
         else
           (Inr (\<exists>r \<in> set (reservations d). r_id r = p_reservation_id \<and> cancellable r),
            d\<lparr>reservations :=
                 map (\<lambda>r. if r_id r = p_reservation_id \<and> cancellable r
                           then r\<lparr>r_status := Some Cancelled, r_updated_at := now_ts\<rparr>
                           else r)
                   (reservations d)\<rparr>))"

section \<open>The booking form and the pricing library (TypeScript)\<close>

text \<open>
  A JavaScript number is an IEEE double: here the rational it denotes, or NaN (\<open>None\<close>).
  Comparisons with NaN are false. Millisecond counts are whole numbers, and their
  differences are exact. Strings are compared as JavaScript compares them, code unit by
  code unit. \<open>getTime s\<close> stands for \<open>new Date(`2000-01-01T${s}`).getTime()\<close>, the
  milliseconds of the parsed instant or NaN when \<open>s\<close> does not parse; it belongs to the
  JavaScript runtime and is a parameter.
\<close>

type_synonym number = "rat option"

definition num_op :: "(rat \<Rightarrow> rat \<Rightarrow> rat) \<Rightarrow> number \<Rightarrow> number \<Rightarrow> number" where
  "num_op f a b = (case (a, b) of (Some x, Some y) \<Rightarrow> Some (f x y) | _ \<Rightarrow> None)"

definition num_lt :: "number \<Rightarrow> number \<Rightarrow> bool" where
  "num_lt a b = (case (a, b) of (Some x, Some y) \<Rightarrow> x < y | _ \<Rightarrow> False)"

definition num_le :: "number \<Rightarrow> number \<Rightarrow> bool" where
  "num_le a b = (case (a, b) of (Some x, Some y) \<Rightarrow> x \<le> y | _ \<Rightarrow> False)"

definition Math_round :: "number \<Rightarrow> number" where
  "Math_round a = map_option (\<lambda>x. of_int \<lfloor>x + 1 / 2\<rfloor>) a"

text \<open>\<open>x || d\<close> on a nullable number: \<open>d\<close> when \<open>x\<close> is null or zero.\<close>

definition or_default :: "rat option \<Rightarrow> rat \<Rightarrow> rat" where
  "or_default x d = (case x of None \<Rightarrow> d | Some v \<Rightarrow> if v = 0 then d else v)"

text \<open>
  The product, the quotient and the difference of two doubles are the doubles nearest to
  the exact results. What the processor returns is not recomputed here: the three
  operations are parameters of the price calculations, which are stated for whatever
  they return. \<open>Math.round\<close> is exact on the double it is given. The operands are
  prices and multipliers read from decimal columns and clock readings within one day, far
  from the range where a double operation overflows: every result is a finite number.
\<close>

record double_arith =
  d_times :: "rat \<Rightarrow> rat \<Rightarrow> rat"
  d_divide :: "rat \<Rightarrow> rat \<Rightarrow> rat"
  d_minus :: "rat \<Rightarrow> rat \<Rightarrow> rat"

text \<open>
  \<open>new Date(s).getDay()\<close>: the weekday, in the browser's time zone, of the instant that
  \<open>s\<close> parses to. \<open>utcMinutes s\<close> is that instant in minutes since 2000-01-01 00:00 UTC
  (a date without a time parses to midnight UTC of that date), NaN when \<open>s\<close> does not
  parse; \<open>tz\<close> is the number of minutes the local time is ahead of UTC.
\<close>

definition getDay :: "(string \<Rightarrow> int option) \<Rightarrow> int \<Rightarrow> string \<Rightarrow> int option" where
  "getDay utcMinutes tz s = map_option (\<lambda>m. DOW ((m + tz) div 1440)) (utcMinutes s)"

record Venue =
  Venue_id :: string
  Venue_base_price :: rat
  Venue_weekend_price :: "rat option"

record TimeSlot =
  TimeSlot_id :: string
  TimeSlot_venue_id :: string
  TimeSlot_start_time :: string
  TimeSlot_end_time :: string
  TimeSlot_price_weekday :: "rat option"
  TimeSlot_price_weekend :: "rat option"
  TimeSlot_is_active :: bool

text \<open>A row of the form's \<open>reservations\<close> state: \<open>{start_time, end_time}\<close>.\<close>

record ReservationTimes =
  Res_start_time :: string
  Res_end_time :: string

record BookingFormData =
  form_venueId :: string
  form_date :: string
  form_startTime :: string
  form_endTime :: string
  form_notes :: "string option"

subsection \<open>bookingSchema (validations/booking.ts)\<close>

text \<open>
  The duration in hours of the schema, of the end-time options and of \<open>onSubmit\<close>: the
  quotient of a whole number of milliseconds by 3600000, here the exact quotient. The
  double quotient is below 1, or at least 1, exactly when the exact one is.
\<close>

definition durationHours :: "(string \<Rightarrow> number) \<Rightarrow> string \<Rightarrow> string \<Rightarrow> number" where
  "durationHours getTime startTime endTime =
     num_op (\<lambda>ms h. ms / h) (num_op (-) (getTime endTime) (getTime startTime))
       (Some (1000 * 60 * 60))"

definition bookingSchema_refine :: "(string \<Rightarrow> number) \<Rightarrow> BookingFormData \<Rightarrow> bool" where
  "bookingSchema_refine getTime data =
     (if form_startTime data \<noteq> [] \<and> form_endTime data \<noteq> [] then
        num_lt (getTime (form_startTime data)) (getTime (form_endTime data))
        \<and> num_le (Some 1) (durationHours getTime (form_startTime data) (form_endTime data))
      else True)"

definition bookingSchema :: "(string \<Rightarrow> number) \<Rightarrow> BookingFormData \<Rightarrow> bool" where
  "bookingSchema getTime data \<longleftrightarrow>
     length (form_venueId data) \<ge> 1
     \<and> length (form_date data) \<ge> 1
     \<and> length (form_startTime data) \<ge> 1
     \<and> length (form_endTime data) \<ge> 1
     \<and> bookingSchema_refine getTime data"

subsection \<open>fetchTimeSlots: the slots without a conflicting reservation\<close>

definition overlaps :: "TimeSlot \<Rightarrow> ReservationTimes \<Rightarrow> bool" where
  "overlaps slot reservation \<longleftrightarrow>
     TimeSlot_start_time slot < Res_end_time reservation
     \<and> TimeSlot_end_time slot > Res_start_time reservation"

definition hasConflict :: "ReservationTimes list \<Rightarrow> TimeSlot \<Rightarrow> bool" where
  "hasConflict reservations_state slot = list_ex (overlaps slot) reservations_state"

definition fetchTimeSlots_available :: "TimeSlot list \<Rightarrow> ReservationTimes list \<Rightarrow> string list" where
  "fetchTimeSlots_available slots reservations_state =
     map TimeSlot_start_time (filter (\<lambda>slot. \<not> hasConflict reservations_state slot) slots)"

subsection \<open>getEndTimeOptions\<close>

text \<open>
  The \<open>for\<close> loop over \<open>i\<close>, with \<open>availableEndSlots\<close> as accumulator; \<open>continue\<close> goes to
  the next index, \<open>break\<close> returns what has been collected.
\<close>

function getEndTimeOptions_loop ::
  "(string \<Rightarrow> number) \<Rightarrow> TimeSlot list \<Rightarrow> ReservationTimes list \<Rightarrow> string \<Rightarrow> nat \<Rightarrow> nat
     \<Rightarrow> string list \<Rightarrow> string list" where
  "getEndTimeOptions_loop getTime timeSlots reservations_state startTime startIndex i
       availableEndSlots =
     (if i < length timeSlots then
        (let slot = timeSlots ! i;
             potentialEndTime = TimeSlot_end_time slot
         in if num_lt (durationHours getTime startTime potentialEndTime) (Some 1)
            then getEndTimeOptions_loop getTime timeSlots reservations_state startTime
                   startIndex (i + 1) availableEndSlots
            else
              (let wouldConflict =
                     list_ex (hasConflict reservations_state)
                       (take (i + 1 - startIndex) (drop startIndex timeSlots))
               in if \<not> wouldConflict
                  then getEndTimeOptions_loop getTime timeSlots reservations_state startTime
                         startIndex (i + 1) (availableEndSlots @ [potentialEndTime])
                  else availableEndSlots))
      else availableEndSlots)"
  by pat_completeness auto
termination
  by (relation "measure (\<lambda>(getTime, timeSlots, reservations_state, startTime, startIndex, i,
                           availableEndSlots). length timeSlots - i)") auto

declare getEndTimeOptions_loop.simps [simp del]

fun findIndex :: "('a \<Rightarrow> bool) \<Rightarrow> 'a list \<Rightarrow> nat option" where
  "findIndex P [] = None"
| "findIndex P (x # xs) = (if P x then Some 0 else map_option Suc (findIndex P xs))"

definition getEndTimeOptions ::
  "(string \<Rightarrow> number) \<Rightarrow> TimeSlot list \<Rightarrow> ReservationTimes list \<Rightarrow> string \<Rightarrow> string list" where
  "getEndTimeOptions getTime timeSlots reservations_state startTime =
     (if startTime = [] then []
      else case findIndex (\<lambda>slot. TimeSlot_start_time slot = startTime) timeSlots of
        None \<Rightarrow> []
      | Some startIndex \<Rightarrow>
          getEndTimeOptions_loop getTime timeSlots reservations_state startTime startIndex
            startIndex [])"

subsection \<open>calculatePrice of the booking form\<close>

text \<open>A nullable number in a condition: null and zero count as false.\<close>

definition truthy :: "rat option \<Rightarrow> bool" where
  "truthy x = (case x of None \<Rightarrow> False | Some v \<Rightarrow> v \<noteq> 0)"

definition calculatePrice_form ::
  "double_arith \<Rightarrow> (string \<Rightarrow> number) \<Rightarrow> (string \<Rightarrow> int option) \<Rightarrow> int \<Rightarrow> Venue list
     \<Rightarrow> TimeSlot list \<Rightarrow> BookingFormData \<Rightarrow> number" where
  "calculatePrice_form fl getTime utcMinutes tz venues_prop timeSlots data =
     (if form_venueId data = [] \<or> form_startTime data = [] \<or> form_endTime data = []
         \<or> form_date data = [] then Some 0
      else case find (\<lambda>v. Venue_id v = form_venueId data) venues_prop of
        None \<Rightarrow> Some 0
      | Some venue \<Rightarrow>
      (case find (\<lambda>slot. TimeSlot_start_time slot = form_startTime data) timeSlots of
        None \<Rightarrow> Some 0
      | Some startSlot \<Rightarrow>
          (let duration =
                 num_op (d_divide fl)
                   (num_op (-) (getTime (form_endTime data)) (getTime (form_startTime data)))
                   (Some (1000 * 60 * 60));
               isWeekend = (getDay utcMinutes tz (form_date data) = Some 0
                            \<or> getDay utcMinutes tz (form_date data) = Some 6);
               basePrice =
                 (if isWeekend \<and> truthy (Venue_weekend_price venue)
                  then COALESCE (Venue_weekend_price venue) 0
                  else Venue_base_price venue);
               pricePerHour =
                 d_times fl basePrice
                   (if isWeekend then or_default (TimeSlot_price_weekend startSlot) 1
                    else or_default (TimeSlot_price_weekday startSlot) 1)
           in Math_round (num_op (d_times fl) (Some pricePerHour) duration))))"

subsection \<open>onSubmit of the booking form\<close>

text \<open>
  The arguments of the remote call to \<open>create_reservation\<close>; \<open>Inl\<close> is the message
  given to \<open>setError\<close> when no call is made. \<open>handleSubmit\<close> is the form library's
  wrapper: it runs the handler only on data that the schema accepted.
\<close>

record create_reservation_args =
  arg_p_user_id :: string
  arg_p_venue_id :: string
  arg_p_venue_time_slot_id :: string
  arg_p_reservation_date :: string
  arg_p_start_time :: string
  arg_p_end_time :: string
  arg_p_duration_hours :: number
  arg_p_discount_percentage :: rat
  arg_p_notes :: "string option"

definition onSubmit ::
  "(string \<Rightarrow> number) \<Rightarrow> string \<Rightarrow> Venue list \<Rightarrow> TimeSlot list \<Rightarrow> BookingFormData
     \<Rightarrow> string + create_reservation_args" where
  "onSubmit getTime user_id venues_prop timeSlots data =
     (case find (\<lambda>v. Venue_id v = form_venueId data) venues_prop of
        None \<Rightarrow> Inl ''Selected venue not found''
      | Some venue \<Rightarrow>
      (case find (\<lambda>slot. TimeSlot_start_time slot = form_startTime data) timeSlots of
        None \<Rightarrow> Inl ''Selected time slot not found''
      | Some selectedTimeSlot \<Rightarrow>
          (let duration = durationHours getTime (form_startTime data) (form_endTime data)
           in Inr \<lparr>arg_p_user_id = user_id,
                   arg_p_venue_id = form_venueId data,
                   arg_p_venue_time_slot_id = TimeSlot_id selectedTimeSlot,
                   arg_p_reservation_date = form_date data,
                   arg_p_start_time = form_startTime data,
                   arg_p_end_time = form_endTime data,
                   arg_p_duration_hours = duration,
                   arg_p_discount_percentage = 0,
                   arg_p_notes = (case form_notes data of
                                    None \<Rightarrow> None
                                  | Some n \<Rightarrow> if n = [] then None else Some n)\<rparr>)))"

definition handleSubmit ::
  "(string \<Rightarrow> number) \<Rightarrow> string \<Rightarrow> Venue list \<Rightarrow> TimeSlot list \<Rightarrow> BookingFormData
     \<Rightarrow> (string + create_reservation_args) option" where
  "handleSubmit getTime user_id venues_prop timeSlots data =
     (if bookingSchema getTime data
      then Some (onSubmit getTime user_id venues_prop timeSlots data)
      else None)"

subsection \<open>calculatePrice of the pricing library (lib/pricing.ts)\<close>

text \<open>
  \<open>table\<close> is what the request to \<open>venue_time_slots\<close> meets: the rows of the table, in
  the order in which the server returns them (the request asks for none), or the message
  of a failed request. \<open>day\<close> is \<open>date.getDay()\<close>. The requested times are parsed with
  \<open>:00\<close> appended, the slot times as they are.
\<close>

record PricingCalculation =
  pc_basePrice :: number
  pc_discountAmount :: number
  pc_totalPrice :: number
  pc_duration :: number
  pc_isWeekend :: bool

definition applicable :: "(string \<Rightarrow> number) \<Rightarrow> number \<Rightarrow> number \<Rightarrow> TimeSlot \<Rightarrow> bool" where
  "applicable getTime start_ms end_ms slot \<longleftrightarrow>
     num_le (getTime (TimeSlot_start_time slot)) start_ms
     \<and> num_le end_ms (getTime (TimeSlot_end_time slot))"

definition calculatePrice ::
  "double_arith \<Rightarrow> (string \<Rightarrow> number) \<Rightarrow> string + TimeSlot list \<Rightarrow> string \<Rightarrow> nat \<Rightarrow> string
     \<Rightarrow> string \<Rightarrow> rat \<Rightarrow> string + PricingCalculation" where
  "calculatePrice fl getTime table venueId day startTime endTime discountPercent =
     (let isWeekend = (day = 0 \<or> day = 6);
          start_ms = getTime (startTime @ '':00'');
          end_ms = getTime (endTime @ '':00'');
          duration = num_op (d_divide fl) (num_op (-) end_ms start_ms) (Some (1000 * 60))
      in case table of
           Inl message \<Rightarrow> Inl (''Failed to fetch pricing: '' @ message)
         | Inr rows \<Rightarrow>
             (let timeSlots =
                    filter (\<lambda>slot. TimeSlot_venue_id slot = venueId \<and> TimeSlot_is_active slot)
                      rows
              in if timeSlots = [] then Inl ''No pricing information available for this venue''
                 else case find (applicable getTime start_ms end_ms) timeSlots of
                   None \<Rightarrow> Inl ''No pricing available for the selected time slot''
                 | Some applicableSlot \<Rightarrow>
                     (let hourlyRate =
                            (if isWeekend
                             then or_default (TimeSlot_price_weekend applicableSlot) 0
                             else or_default (TimeSlot_price_weekday applicableSlot) 0);
                          basePrice =
                            num_op (d_divide fl)
                              (num_op (d_times fl) (Some hourlyRate) duration) (Some 60);
                          discountAmount =
                            num_op (d_divide fl)
                              (num_op (d_times fl) basePrice (Some discountPercent)) (Some 100);
                          totalPrice = num_op (d_minus fl) basePrice discountAmount
                      in Inr \<lparr>pc_basePrice = Math_round basePrice,
                              pc_discountAmount = Math_round discountAmount,
                              pc_totalPrice = Math_round totalPrice,
                              pc_duration = duration,
                              pc_isWeekend = isWeekend\<rparr>)))"

subsection \<open>generateReservationCode of the pricing library\<close>

text \<open>
  \<open>now_text\<close> is \<open>Date.now().toString()\<close>, \<open>random_text\<close> is \<open>Math.random().toString(36)\<close>.
  The function reads nothing else: no table of reservations, no earlier code.
\<close>

definition toUpperCase :: "string \<Rightarrow> string" where
  "toUpperCase s =
     map (\<lambda>c. case map_of (zip ''abcdefghijklmnopqrstuvwxyz'' ''ABCDEFGHIJKLMNOPQRSTUVWXYZ'') c of
                 None \<Rightarrow> c
               | Some u \<Rightarrow> u) s"

definition generateReservationCode :: "string \<Rightarrow> string \<Rightarrow> string" where
  "generateReservationCode now_text random_text =
     (let prefix = ''OSC'';
          timestamp = drop (length now_text - 6) now_text;
          random = toUpperCase (take 3 (drop 2 random_text))
      in prefix @ timestamp @ random)"

section \<open>Example data\<close>

text \<open>
  A small database used to run the functions: three users (1 and 3 customers, 2 staff),
  venue 1 with a weekend price, venues 2 and 4 without, venue 3 inactive; hourly slots
  from 10:00 (36000 s), the one of venue 1 at 12:00 (43200 s) switched off, venue 2's
  with a NULL multiplier; on day 0 (a Saturday) venue 1 has a pending
  reservation 10:00-11:00, a cancelled one 11:00-12:00 and a completed one 12:00-13:00.
\<close>

definition example_reservation :: "uuid \<Rightarrow> string \<Rightarrow> time \<Rightarrow> time \<Rightarrow> reservation_status \<Rightarrow> reservation" where
  "example_reservation i c s e st =
     \<lparr>r_id = i, r_reservation_code = c, r_user_id = 1, r_venue_id = 1,
      r_venue_time_slot_id = 1, r_reservation_date = 0, r_start_time = s, r_end_time = e,
      r_duration_hours = 1, r_base_price = 200000, r_discount_percentage = Some 0,
      r_total_price = 200000, r_status = Some st, r_payment_status = Some PaymentPending,
      r_notes = None, r_created_at = 0, r_updated_at = 0\<rparr>"

definition example_db :: db where
  "example_db =
     \<lparr>profiles = [\<lparr>p_id = 1, p_role = Some Customer\<rparr>, \<lparr>p_id = 2, p_role = Some Staff\<rparr>,
                  \<lparr>p_id = 3, p_role = Some Customer\<rparr>],
      venues = [\<lparr>v_id = 1, v_base_price = 150000, v_weekend_price = Some 200000,
                 v_is_active = Some True\<rparr>,
                \<lparr>v_id = 2, v_base_price = 9999999 / 100, v_weekend_price = None,
                 v_is_active = Some True\<rparr>,
                \<lparr>v_id = 3, v_base_price = 100000, v_weekend_price = None,
                 v_is_active = Some False\<rparr>,
                \<lparr>v_id = 4, v_base_price = 100000, v_weekend_price = None,
                 v_is_active = Some True\<rparr>],
      venue_time_slots =
               [\<lparr>vts_id = 1, vts_venue_id = 1, vts_start_time = 36000, vts_end_time = 39600,
                 vts_is_available = Some True, vts_price_multiplier = Some 1\<rparr>,
                \<lparr>vts_id = 2, vts_venue_id = 1, vts_start_time = 39600, vts_end_time = 43200,
                 vts_is_available = Some True, vts_price_multiplier = Some (13 / 10)\<rparr>,
                \<lparr>vts_id = 3, vts_venue_id = 2, vts_start_time = 36000, vts_end_time = 39600,
                 vts_is_available = Some True, vts_price_multiplier = None\<rparr>,
                \<lparr>vts_id = 4, vts_venue_id = 1, vts_start_time = 43200, vts_end_time = 46800,
                 vts_is_available = Some False, vts_price_multiplier = Some 1\<rparr>,
                \<lparr>vts_id = 5, vts_venue_id = 4, vts_start_time = 36000, vts_end_time = 39600,
                 vts_is_available = Some True, vts_price_multiplier = Some 1\<rparr>],
      reservations =
               [example_reservation 100 ''OSC200001010001'' 36000 39600 Pending,
                example_reservation 101 ''OSC200001010002'' 39600 43200 Cancelled,
                example_reservation 102 ''OSC200001010003'' 43200 46800 Completed]\<rparr>"

text \<open>
  Two overlapping slots for venue 1, 10:00-12:00 with the multiplier 1 and 10:00-11:00
  with the multiplier 1.5.
\<close>

definition example_overlap :: "venue_time_slot list" where
  "example_overlap =
     [\<lparr>vts_id = 6, vts_venue_id = 1, vts_start_time = 36000, vts_end_time = 43200,
       vts_is_available = Some True, vts_price_multiplier = Some 1\<rparr>,
      \<lparr>vts_id = 7, vts_venue_id = 1, vts_start_time = 36000, vts_end_time = 39600,
       vts_is_available = Some True, vts_price_multiplier = Some (3 / 2)\<rparr>]"

definition example_env :: env where
  "example_env = \<lparr>now = 5, today = ''20000101'', random_draws = [1, 2, 42], new_uuid = 103\<rparr>"

text \<open>
  The booking form's side of the example: one venue with the prices of venue 1, slots
  10:00-10:30, 10:30-11:00 and 11:00-12:00 without prices of their own, the clock
  readings of the times that occur, and the instants of the dates 2000-01-01 (a
  Saturday) and 2000-01-04 (a Tuesday). A second venue list has the same venue with a
  weekend price of zero.
\<close>

definition example_getTime :: "string \<Rightarrow> number" where
  "example_getTime s =
     (if s = ''10:00:00'' then Some 36000000
      else if s = ''10:30:00'' then Some 37800000
      else if s = ''11:00:00'' then Some 39600000
      else if s = ''12:00:00'' then Some 43200000
      else None)"

definition example_utcMinutes :: "string \<Rightarrow> int option" where
  "example_utcMinutes s =
     (if s = ''2000-01-01'' then Some 0 else if s = ''2000-01-04'' then Some (3 * 1440)
      else None)"

text \<open>
  All the example's prices, multipliers and hours are whole numbers far below \<open>2^53\<close>, and
  so are their products and quotients: on them the double operations return the exact
  results.
\<close>

definition example_arith :: double_arith where
  "example_arith = \<lparr>d_times = (*), d_divide = (/), d_minus = (-)\<rparr>"

definition example_Venues :: "Venue list" where
  "example_Venues =
     [\<lparr>Venue_id = ''v1'', Venue_base_price = 150000, Venue_weekend_price = Some 200000\<rparr>]"

definition example_Venues_zero :: "Venue list" where
  "example_Venues_zero =
     [\<lparr>Venue_id = ''v1'', Venue_base_price = 150000, Venue_weekend_price = Some 0\<rparr>]"

definition example_TimeSlot :: "string \<Rightarrow> string \<Rightarrow> string \<Rightarrow> TimeSlot" where
  "example_TimeSlot i s e =
     \<lparr>TimeSlot_id = i, TimeSlot_venue_id = ''v1'', TimeSlot_start_time = s,
      TimeSlot_end_time = e, TimeSlot_price_weekday = None, TimeSlot_price_weekend = None,
      TimeSlot_is_active = True\<rparr>"

definition example_TimeSlots :: "TimeSlot list" where
  "example_TimeSlots =
     [example_TimeSlot ''s1'' ''10:00:00'' ''10:30:00'',
      example_TimeSlot ''s2'' ''10:30:00'' ''11:00:00'',
      example_TimeSlot ''s3'' ''11:00:00'' ''12:00:00'']"

definition example_form :: "string \<Rightarrow> string \<Rightarrow> string \<Rightarrow> BookingFormData" where
  "example_form dt s e =
     \<lparr>form_venueId = ''v1'', form_date = dt, form_startTime = s, form_endTime = e,
      form_notes = None\<rparr>"

section \<open>Properties\<close>

lemma conflict_count_zero:
  "(length (filter P xs) = 0) = (\<not> (\<exists>x \<in> set xs. P x))"
  by (simp add: filter_empty_conv)

lemma availability_append:
  "check_venue_availability (d\<lparr>reservations := reservations d @ [r]\<rparr>) v dt s e x
     = (check_venue_availability d v dt s e x \<and> \<not> conflicts v dt s e x r)"
  by (auto simp: check_venue_availability_def Let_def conflict_count_zero)

lemma hasConflict_iff:
  "hasConflict rs slot \<longleftrightarrow>
     (\<exists>res \<in> set rs. TimeSlot_start_time slot < Res_end_time res
                      \<and> TimeSlot_end_time slot > Res_start_time res)"
  by (simp add: hasConflict_def overlaps_def list_ex_iff)

subsection \<open>Availability\<close>

text \<open>
  C1. For every venue, date and candidate interval, \<open>check_venue_availability\<close> (called,
  as everywhere in the source, without a reservation to exclude) returns true exactly
  when no reservation of that venue and date whose status is pending or confirmed
  has \<open>start < candidateEnd\<close> and \<open>end > candidateStart\<close>. In particular it returns true
  when the venue has no pending or confirmed reservation on that date; a reservation
  that starts exactly at the candidate's end never conflicts, and adding it leaves the
  answer as it was; so does adding a reservation that is neither pending nor confirmed.
  The booking form's filter in \<open>fetchTimeSlots\<close> applies the same overlap test to the
  reservations it has fetched.
\<close>

theorem availability_iff_no_overlap:
  "(check_venue_availability d v dt s e None \<longleftrightarrow>
      \<not> (\<exists>r \<in> set (reservations d).
            r_venue_id r = v \<and> r_reservation_date r = dt
            \<and> (r_status r = Some Pending \<or> r_status r = Some Confirmed)
            \<and> r_start_time r < e \<and> r_end_time r > s))
   \<and> ((\<forall>r \<in> set (reservations d).
          \<not> (r_venue_id r = v \<and> r_reservation_date r = dt
             \<and> (r_status r = Some Pending \<or> r_status r = Some Confirmed)))
        \<longrightarrow> check_venue_availability d v dt s e None)
   \<and> (r_start_time r1 = e \<longrightarrow>
        \<not> conflicts v dt s e None r1
        \<and> check_venue_availability (d\<lparr>reservations := reservations d @ [r1]\<rparr>) v dt s e None
            = check_venue_availability d v dt s e None)
   \<and> (r_status r2 \<noteq> Some Pending \<and> r_status r2 \<noteq> Some Confirmed \<longrightarrow>
        check_venue_availability (d\<lparr>reservations := reservations d @ [r2]\<rparr>) v dt s e None
          = check_venue_availability d v dt s e None)
   \<and> fetchTimeSlots_available slots rs =
        map TimeSlot_start_time
          (filter (\<lambda>slot. \<not> (\<exists>res \<in> set rs. TimeSlot_start_time slot < Res_end_time res
                                          \<and> TimeSlot_end_time slot > Res_start_time res))
             slots)"
proof -
  have iff: "check_venue_availability d v dt s e None \<longleftrightarrow>
      \<not> (\<exists>r \<in> set (reservations d).
            r_venue_id r = v \<and> r_reservation_date r = dt
            \<and> (r_status r = Some Pending \<or> r_status r = Some Confirmed)
            \<and> r_start_time r < e \<and> r_end_time r > s)"
    unfolding check_venue_availability_def Let_def conflict_count_zero conflicts_def
    by auto
  have none: "(\<forall>r \<in> set (reservations d).
          \<not> (r_venue_id r = v \<and> r_reservation_date r = dt
             \<and> (r_status r = Some Pending \<or> r_status r = Some Confirmed)))
        \<longrightarrow> check_venue_availability d v dt s e None"
    unfolding iff by blast
  have adjacent: "r_start_time r1 = e \<longrightarrow>
        \<not> conflicts v dt s e None r1
        \<and> check_venue_availability (d\<lparr>reservations := reservations d @ [r1]\<rparr>) v dt s e None
            = check_venue_availability d v dt s e None"
    by (simp add: availability_append conflicts_def)
  have inactive: "r_status r2 \<noteq> Some Pending \<and> r_status r2 \<noteq> Some Confirmed \<longrightarrow>
        check_venue_availability (d\<lparr>reservations := reservations d @ [r2]\<rparr>) v dt s e None
          = check_venue_availability d v dt s e None"
    by (simp add: availability_append conflicts_def)
  have form: "fetchTimeSlots_available slots rs =
        map TimeSlot_start_time
          (filter (\<lambda>slot. \<not> (\<exists>res \<in> set rs. TimeSlot_start_time slot < Res_end_time res
                                          \<and> TimeSlot_end_time slot > Res_start_time res))
             slots)"
    by (simp add: fetchTimeSlots_available_def hasConflict_iff)
  from iff none adjacent inactive form show ?thesis by blast
qed

theorem availability_iff_no_overlap_witness:
  "check_venue_availability example_db 1 0 39600 43200 None
   \<and> \<not> check_venue_availability example_db 1 0 37800 41400 None
   \<and> check_venue_availability example_db 2 0 36000 39600 None
   \<and> check_venue_availability
        (example_db\<lparr>reservations := reservations example_db
            @ [example_reservation 104 ''OSC200001010004'' 43200 46800 Confirmed]\<rparr>)
        1 0 39600 43200 None
   \<and> check_venue_availability
        (example_db\<lparr>reservations := reservations example_db
            @ [example_reservation 105 ''OSC200001010005'' 39600 43200 Completed]\<rparr>)
        1 0 39600 43200 None"
  using availability_iff_no_overlap
          [of example_db 1 0 39600 43200
              "example_reservation 104 ''OSC200001010004'' 43200 46800 Confirmed"
              "example_reservation 105 ''OSC200001010005'' 39600 43200 Completed" "[]" "[]"]
        availability_iff_no_overlap
          [of example_db 1 0 37800 41400
              "example_reservation 104 ''OSC200001010004'' 43200 46800 Confirmed"
              "example_reservation 105 ''OSC200001010005'' 39600 43200 Completed" "[]" "[]"]
        availability_iff_no_overlap
          [of example_db 2 0 36000 39600
              "example_reservation 104 ''OSC200001010004'' 43200 46800 Confirmed"
              "example_reservation 105 ''OSC200001010005'' 39600 43200 Completed" "[]" "[]"]
  by (simp add: example_db_def example_reservation_def)

subsection \<open>Rounding and the shape of a successful creation\<close>

lemma ROUND_idem: "ROUND (ROUND x s) s = ROUND x s"
proof -
  define n where "n = \<lfloor>\<bar>x\<bar> * 10 ^ s + 1 / 2\<rfloor>"
  have n0: "0 \<le> n" unfolding n_def by simp
  have r: "ROUND x s = sgn x * of_int n / 10 ^ s" by (simp add: ROUND_def n_def)
  show ?thesis
  proof (cases "n = 0 \<or> x = 0")
    case True
    then have z: "ROUND x s = 0" using r by auto
    have "ROUND 0 s = 0" by (simp add: ROUND_def)
    with z show ?thesis by simp
  next
    case False
    then have n1: "0 < n" and x0: "x \<noteq> 0" using n0 by auto
    have abs_r: "\<bar>ROUND x s\<bar> = of_int n / 10 ^ s"
      using n1 x0 by (simp add: r abs_mult abs_sgn_eq)
    have sgn_r: "sgn (ROUND x s) = sgn x"
      using n1 x0 by (simp add: r sgn_mult sgn_divide)
    have "\<lfloor>\<bar>ROUND x s\<bar> * 10 ^ s + 1 / 2\<rfloor> = n"
      by (simp add: abs_r) linarith
    then show ?thesis
      unfolding ROUND_def[of "ROUND x s"] sgn_r
      by (simp add: r)
  qed
qed

lemma floor_rat_numeral_div:
  "\<lfloor>(numeral a :: rat) / numeral b\<rfloor> = numeral a div numeral b"
  by (metis floor_divide_of_int_eq of_int_numeral)

lemma ROUND_exact: "ROUND (of_int k / 10 ^ s) s = of_int k / 10 ^ s"
proof -
  have "\<bar>rat_of_int k / 10 ^ s\<bar> * 10 ^ s = of_int \<bar>k\<bar>"
    by (simp add: abs_divide)
  moreover have "\<lfloor>rat_of_int \<bar>k\<bar> + 1 / 2\<rfloor> = \<bar>k\<bar>"
    by (rule floor_unique) simp_all
  ultimately have fl: "\<lfloor>\<bar>rat_of_int k / 10 ^ s\<bar> * 10 ^ s + 1 / 2\<rfloor> = \<bar>k\<bar>"
    by simp
  have sg: "sgn (rat_of_int k / 10 ^ s) = of_int (sgn k)"
    by (simp add: sgn_divide) (simp add: sgn_if)
  have "sgn k * \<bar>k\<bar> = k" by (simp add: sgn_mult_abs)
  then have "rat_of_int (sgn k) * rat_of_int \<bar>k\<bar> = rat_of_int k"
    by (metis of_int_mult)
  then show ?thesis
    unfolding ROUND_def fl sg by simp
qed

lemma ROUND_two_decimals:
  assumes "x = of_int k / 100"
  shows "ROUND x 2 = x"
proof -
  have p: "(10::rat) ^ 2 = 100" by simp
  have "ROUND (of_int k / 10 ^ 2) 2 = of_int k / 10 ^ 2" by (rule ROUND_exact)
  then show ?thesis unfolding p assms[symmetric] .
qed

lemma to_decimal_column_Some: "to_decimal_column p s x = Some v \<Longrightarrow> v = ROUND x s"
  by (auto simp: to_decimal_column_def Let_def split: if_splits)

lemma insert_reservation_Inr:
  assumes "insert_reservation e d code u vid sid dt s t dur bp disc tp n = Inr (rid, d')"
  shows "\<exists>b t0. bp = Some b \<and> tp = Some t0 \<and> s < t \<and> rid = new_uuid e
           \<and> code \<notin> r_reservation_code ` set (reservations d)
           \<and> d' = d\<lparr>reservations := reservations d @
                     [new_reservation_row e code u vid sid dt s t (ROUND dur 1) (ROUND b 2)
                        (ROUND disc 2) (ROUND t0 2) n]\<rparr>"
  using assms
  by (auto simp: insert_reservation_def split: if_splits option.splits
           dest!: to_decimal_column_Some)

lemma calculate_venue_price_rounded:
  "calculate_venue_price d vid dt s dur = Inr (Some bp) \<Longrightarrow> ROUND bp 2 = bp"
  by (auto simp: calculate_venue_price_def Let_def ROUND_idem
           split: option.splits if_splits bool.splits)

lemma create_reservation_success:
  assumes "create_reservation e d u vid sid dt s t dur disc n = Some (Inr rid, d')"
  shows "\<exists>bp code.
           calculate_venue_price d vid dt s dur = Inr (Some bp)
           \<and> generate_reservation_code d (today e) (random_draws e) = Some code
           \<and> code \<notin> r_reservation_code ` set (reservations d)
           \<and> check_venue_availability d vid dt s t None
           \<and> s < t \<and> rid = new_uuid e
           \<and> d' = d\<lparr>reservations := reservations d @
                     [new_reservation_row e code u vid sid dt s t (ROUND dur 1) bp
                        (ROUND disc 2) (ROUND (bp * (1 - disc / 100)) 2) n]\<rparr>"
proof -
  from assms obtain base_price code where
    avail: "check_venue_availability d vid dt s t None" and
    price: "calculate_venue_price d vid dt s dur = Inr base_price" and
    code: "generate_reservation_code d (today e) (random_draws e) = Some code" and
    ins: "insert_reservation e d code u vid sid dt s t dur base_price disc
            (map_option (\<lambda>b. b * (1 - disc / 100)) base_price) n = Inr (rid, d')"
    by (auto simp: create_reservation_def Let_def
             split: if_splits sum.splits option.splits prod.splits)
  from insert_reservation_Inr[OF ins] obtain b t0 where
    b: "base_price = Some b" and
    t0: "map_option (\<lambda>b. b * (1 - disc / 100)) base_price = Some t0" and
    rest: "s < t" "rid = new_uuid e" "code \<notin> r_reservation_code ` set (reservations d)" and
    d': "d' = d\<lparr>reservations := reservations d @
                     [new_reservation_row e code u vid sid dt s t (ROUND dur 1) (ROUND b 2)
                        (ROUND disc 2) (ROUND t0 2) n]\<rparr>"
    by blast
  from t0 b have t0_eq: "t0 = b * (1 - disc / 100)" by simp
  from price b have rb: "ROUND b 2 = b" by (simp add: calculate_venue_price_rounded)
  show ?thesis
    using avail price code rest d' b by (simp add: t0_eq rb)
qed

lemma example_tables:
  "profiles example_db = [\<lparr>p_id = 1, p_role = Some Customer\<rparr>, \<lparr>p_id = 2, p_role = Some Staff\<rparr>,
                  \<lparr>p_id = 3, p_role = Some Customer\<rparr>]"
  "venues example_db = [\<lparr>v_id = 1, v_base_price = 150000, v_weekend_price = Some 200000,
                 v_is_active = Some True\<rparr>,
                \<lparr>v_id = 2, v_base_price = 9999999 / 100, v_weekend_price = None,
                 v_is_active = Some True\<rparr>,
                \<lparr>v_id = 3, v_base_price = 100000, v_weekend_price = None,
                 v_is_active = Some False\<rparr>,
                \<lparr>v_id = 4, v_base_price = 100000, v_weekend_price = None,
                 v_is_active = Some True\<rparr>]"
  "venue_time_slots example_db =
               [\<lparr>vts_id = 1, vts_venue_id = 1, vts_start_time = 36000, vts_end_time = 39600,
                 vts_is_available = Some True, vts_price_multiplier = Some 1\<rparr>,
                \<lparr>vts_id = 2, vts_venue_id = 1, vts_start_time = 39600, vts_end_time = 43200,
                 vts_is_available = Some True, vts_price_multiplier = Some (13 / 10)\<rparr>,
                \<lparr>vts_id = 3, vts_venue_id = 2, vts_start_time = 36000, vts_end_time = 39600,
                 vts_is_available = Some True, vts_price_multiplier = None\<rparr>,
                \<lparr>vts_id = 4, vts_venue_id = 1, vts_start_time = 43200, vts_end_time = 46800,
                 vts_is_available = Some False, vts_price_multiplier = Some 1\<rparr>,
                \<lparr>vts_id = 5, vts_venue_id = 4, vts_start_time = 36000, vts_end_time = 39600,
                 vts_is_available = Some True, vts_price_multiplier = Some 1\<rparr>]"
  "reservations example_db =
               [example_reservation 100 ''OSC200001010001'' 36000 39600 Pending,
                example_reservation 101 ''OSC200001010002'' 39600 43200 Cancelled,
                example_reservation 102 ''OSC200001010003'' 43200 46800 Completed]"
  by (simp_all add: example_db_def)

lemma example_code:
  "generate_reservation_code example_db (today example_env) (random_draws example_env)
     = Some ''OSC200001010042''"
  by (simp add: example_env_def example_tables example_reservation_def reservation_code_of_def
        LPAD_def numeral_2_eq_2 numeral_3_eq_3)

lemma example_price:
  "calculate_venue_price example_db 4 3 36000 1 = Inr (Some 100000)"
  "calculate_venue_price example_db 2 3 36000 1 = Inr (Some (9999999 / 100))"
  "calculate_venue_price example_db 2 3 36000 5 = Inr (Some (9999999 / 20))"
  by (simp_all add: calculate_venue_price_def example_tables slot_contains_def DOW_def
        COALESCE_def ROUND_def floor_rat_numeral_div)

lemma example_available:
  "check_venue_availability example_db 4 3 36000 39600 None"
  "check_venue_availability example_db 2 3 36000 39600 None"
  by (simp_all add: check_venue_availability_def example_tables example_reservation_def
        conflicts_def)

lemma example_venue_and_slot:
  "\<exists>v \<in> set (venues example_db). v_id v = 4 \<and> v_is_active v = Some True"
  "\<exists>vts \<in> set (venue_time_slots example_db).
     vts_id vts = 5 \<and> vts_venue_id vts = 4 \<and> vts_is_available vts = Some True"
  "\<exists>v \<in> set (venues example_db). v_id v = 2 \<and> v_is_active v = Some True"
  "\<exists>vts \<in> set (venue_time_slots example_db).
     vts_id vts = 3 \<and> vts_venue_id vts = 2 \<and> vts_is_available vts = Some True"
  by (simp_all add: example_tables)

lemma example_insert:
  "insert_reservation example_env example_db ''OSC200001010042'' 3 4 5 3 36000 39600 1
       (Some 100000) 10 (Some (100000 * (1 - 10 / 100))) None
     = Inr (103, example_db\<lparr>reservations := reservations example_db @
          [new_reservation_row example_env ''OSC200001010042'' 3 4 5 3 36000 39600 1 100000 10
             90000 None]\<rparr>)"
  "insert_reservation example_env example_db ''OSC200001010042'' 3 2 3 3 36000 39600 1
       (Some (9999999 / 100)) 10 (Some (9999999 / 100 * (1 - 10 / 100))) None
     = Inr (103, example_db\<lparr>reservations := reservations example_db @
          [new_reservation_row example_env ''OSC200001010042'' 3 2 3 3 36000 39600 1
             (9999999 / 100) 10 (8999999 / 100) None]\<rparr>)"
  "insert_reservation example_env example_db ''OSC200001010042'' 3 2 3 3 36000 39600 5
       (Some (9999999 / 20)) 0 (Some (9999999 / 20 * (1 - 0 / 100))) None
     = Inr (103, example_db\<lparr>reservations := reservations example_db @
          [new_reservation_row example_env ''OSC200001010042'' 3 2 3 3 36000 39600 5
             (9999999 / 20) 0 (9999999 / 20) None]\<rparr>)"
  by (simp_all add: insert_reservation_def to_decimal_column_def ROUND_def
        floor_rat_numeral_div example_tables example_reservation_def example_env_def)

lemmas create_evaluation =
  example_venue_and_slot example_available example_price example_code example_insert
  Let_def not_True_eq_False not_False_eq_True if_False if_True sum.case option.case
  prod.case option.map

lemma example_create:
  "create_reservation example_env example_db 3 4 5 3 36000 39600 1 10 None
     = Some (Inr 103, example_db\<lparr>reservations := reservations example_db @
          [new_reservation_row example_env ''OSC200001010042'' 3 4 5 3 36000 39600 1 100000 10
             90000 None]\<rparr>)"
  "create_reservation example_env example_db 3 2 3 3 36000 39600 1 10 None
     = Some (Inr 103, example_db\<lparr>reservations := reservations example_db @
          [new_reservation_row example_env ''OSC200001010042'' 3 2 3 3 36000 39600 1
             (9999999 / 100) 10 (8999999 / 100) None]\<rparr>)"
  "create_reservation example_env example_db 3 2 3 3 36000 39600 5 0 None
     = Some (Inr 103, example_db\<lparr>reservations := reservations example_db @
          [new_reservation_row example_env ''OSC200001010042'' 3 2 3 3 36000 39600 5
             (9999999 / 20) 0 (9999999 / 20) None]\<rparr>)"
  unfolding create_reservation_def
  by (simp_all only: create_evaluation)

subsection \<open>Creating a reservation: the preconditions\<close>

lemma create_reservation_error_keeps_db:
  "create_reservation e d u vid sid dt s t dur disc n = Some (Inl err, d') \<Longrightarrow> d' = d"
  by (auto simp: create_reservation_def Let_def
           split: if_splits sum.splits option.splits prod.splits)

lemma insert_reservation_error:
  "insert_reservation e d code u vid sid dt s t dur bp disc tp n = Inl err \<Longrightarrow>
     err \<noteq> RaiseException msg"
  by (auto simp: insert_reservation_def split: if_splits option.splits)

lemma calculate_venue_price_venue_found:
  assumes "\<exists>v \<in> set (venues d). v_id v = vid \<and> v_is_active v = Some True"
  shows "\<exists>p. calculate_venue_price d vid dt s dur = Inr p"
proof -
  from assms have "find (\<lambda>v. v_id v = vid \<and> v_is_active v = Some True) (venues d) \<noteq> None"
    unfolding find_None_iff by blast
  then show ?thesis
    by (auto simp: calculate_venue_price_def Let_def split: option.splits bool.splits)
qed

lemma create_reservation_late_error:
  assumes "\<exists>v \<in> set (venues d). v_id v = vid \<and> v_is_active v = Some True"
    and "\<exists>vts \<in> set (venue_time_slots d).
               vts_id vts = sid \<and> vts_venue_id vts = vid \<and> vts_is_available vts = Some True"
    and "check_venue_availability d vid dt s t None"
    and "create_reservation e d u vid sid dt s t dur disc n = Some (Inl err, d')"
  shows "err \<noteq> RaiseException msg"
proof -
  from calculate_venue_price_venue_found[OF assms(1)] obtain p where
    p: "calculate_venue_price d vid dt s dur = Inr p" by blast
  from assms(4) obtain code where
    "insert_reservation e d code u vid sid dt s t dur p disc
       (map_option (\<lambda>b. b * (1 - disc / 100)) p) n = Inl err"
    using assms(1,2,3) p
    by (auto simp: create_reservation_def Let_def split: option.splits sum.splits prod.splits)
  then show ?thesis by (rule insert_reservation_error)
qed

lemma example_insert_discount:
  "insert_reservation example_env example_db ''OSC200001010042'' 3 4 5 3 36000 39600 1
       (Some 100000) 150 (Some (100000 * (1 - 150 / 100))) None
     = Inl (CheckViolation ''valid_discount'')"
  by (simp add: insert_reservation_def to_decimal_column_def ROUND_def
        floor_rat_numeral_div example_tables example_reservation_def example_env_def)

lemma example_create_discount:
  "create_reservation example_env example_db 3 4 5 3 36000 39600 1 150 None
     = Some (Inl (CheckViolation ''valid_discount''), example_db)"
  unfolding create_reservation_def
  by (simp only: create_evaluation example_insert_discount)

text \<open>
  C2 (as amended). \<open>create_reservation\<close> tests its preconditions in this order: a venue that
  is missing or inactive gives the failure ``Venue not found or inactive''
  (VenueUnavailable) whatever the other arguments are; with the venue in order, a slot
  that is missing, belongs to another venue or is not available gives ``Time slot not
  available'' (SlotUnavailable); with both in order, a conflict found by the availability
  check at that moment gives ``Time slot is already booked'' (SlotAlreadyBooked). Every
  failing call, these three and any later one, leaves the database exactly as it was. The
  three failures are exceptions raised with three different message texts. A call that
  passes the three checks and still fails does not fail with a raised message: its error
  is the one of the INSERT, a declaration of the table that the row breaks.
\<close>

theorem create_reservation_preconditions:
  "(\<not> (\<exists>v \<in> set (venues d). v_id v = vid \<and> v_is_active v = Some True) \<longrightarrow>
      create_reservation e d u vid sid dt s t dur disc n = Some (Inl VenueUnavailable, d))
   \<and> ((\<exists>v \<in> set (venues d). v_id v = vid \<and> v_is_active v = Some True)
       \<and> \<not> (\<exists>vts \<in> set (venue_time_slots d).
               vts_id vts = sid \<and> vts_venue_id vts = vid \<and> vts_is_available vts = Some True) \<longrightarrow>
      create_reservation e d u vid sid dt s t dur disc n = Some (Inl SlotUnavailable, d))
   \<and> ((\<exists>v \<in> set (venues d). v_id v = vid \<and> v_is_active v = Some True)
       \<and> (\<exists>vts \<in> set (venue_time_slots d).
               vts_id vts = sid \<and> vts_venue_id vts = vid \<and> vts_is_available vts = Some True)
       \<and> \<not> check_venue_availability d vid dt s t None \<longrightarrow>
      create_reservation e d u vid sid dt s t dur disc n = Some (Inl SlotAlreadyBooked, d))
   \<and> (create_reservation e d u vid sid dt s t dur disc n = Some (Inl err, d') \<longrightarrow> d' = d)
   \<and> ((\<exists>v \<in> set (venues d). v_id v = vid \<and> v_is_active v = Some True)
       \<and> (\<exists>vts \<in> set (venue_time_slots d).
               vts_id vts = sid \<and> vts_venue_id vts = vid \<and> vts_is_available vts = Some True)
       \<and> check_venue_availability d vid dt s t None
       \<and> create_reservation e d u vid sid dt s t dur disc n = Some (Inl err, d') \<longrightarrow>
      (\<forall>msg. err \<noteq> RaiseException msg))
   \<and> VenueUnavailable = RaiseException ''Venue not found or inactive''
   \<and> SlotUnavailable = RaiseException ''Time slot not available''
   \<and> SlotAlreadyBooked = RaiseException ''Time slot is already booked''
   \<and> VenueUnavailable \<noteq> SlotUnavailable \<and> VenueUnavailable \<noteq> SlotAlreadyBooked
   \<and> SlotUnavailable \<noteq> SlotAlreadyBooked"
proof -
  have venue: "\<not> (\<exists>v \<in> set (venues d). v_id v = vid \<and> v_is_active v = Some True) \<longrightarrow>
      create_reservation e d u vid sid dt s t dur disc n = Some (Inl VenueUnavailable, d)"
    by (simp add: create_reservation_def VenueUnavailable_def)
  have slot: "(\<exists>v \<in> set (venues d). v_id v = vid \<and> v_is_active v = Some True)
       \<and> \<not> (\<exists>vts \<in> set (venue_time_slots d).
               vts_id vts = sid \<and> vts_venue_id vts = vid \<and> vts_is_available vts = Some True) \<longrightarrow>
      create_reservation e d u vid sid dt s t dur disc n = Some (Inl SlotUnavailable, d)"
    by (simp add: create_reservation_def SlotUnavailable_def)
  have booked: "(\<exists>v \<in> set (venues d). v_id v = vid \<and> v_is_active v = Some True)
       \<and> (\<exists>vts \<in> set (venue_time_slots d).
               vts_id vts = sid \<and> vts_venue_id vts = vid \<and> vts_is_available vts = Some True)
       \<and> \<not> check_venue_availability d vid dt s t None \<longrightarrow>
      create_reservation e d u vid sid dt s t dur disc n = Some (Inl SlotAlreadyBooked, d)"
    by (simp add: create_reservation_def SlotAlreadyBooked_def)
  have keep: "create_reservation e d u vid sid dt s t dur disc n = Some (Inl err, d') \<longrightarrow> d' = d"
    using create_reservation_error_keeps_db by blast
  have late: "(\<exists>v \<in> set (venues d). v_id v = vid \<and> v_is_active v = Some True)
       \<and> (\<exists>vts \<in> set (venue_time_slots d).
               vts_id vts = sid \<and> vts_venue_id vts = vid \<and> vts_is_available vts = Some True)
       \<and> check_venue_availability d vid dt s t None
       \<and> create_reservation e d u vid sid dt s t dur disc n = Some (Inl err, d') \<longrightarrow>
      (\<forall>msg. err \<noteq> RaiseException msg)"
    using create_reservation_late_error by blast
  have apart: "VenueUnavailable = RaiseException ''Venue not found or inactive''
      \<and> SlotUnavailable = RaiseException ''Time slot not available''
      \<and> SlotAlreadyBooked = RaiseException ''Time slot is already booked''
      \<and> VenueUnavailable \<noteq> SlotUnavailable \<and> VenueUnavailable \<noteq> SlotAlreadyBooked
      \<and> SlotUnavailable \<noteq> SlotAlreadyBooked"
    by (simp add: VenueUnavailable_def SlotUnavailable_def SlotAlreadyBooked_def)
  from venue slot booked keep late apart show ?thesis by (intro conjI) blast+
qed

text \<open>
  On the example: the inactive venue 3, the switched-off slot 4 of venue 1, the booked
  hour of venue 1, and a booking of venue 4 that passes the checks with a discount of 150.
\<close>

theorem create_reservation_preconditions_witness:
  "create_reservation example_env example_db 1 3 1 0 36000 39600 1 0 None
     = Some (Inl VenueUnavailable, example_db)
   \<and> create_reservation example_env example_db 1 1 4 0 43200 46800 1 0 None
     = Some (Inl SlotUnavailable, example_db)
   \<and> create_reservation example_env example_db 1 1 1 0 36000 39600 1 0 None
     = Some (Inl SlotAlreadyBooked, example_db)
   \<and> CheckViolation ''valid_discount'' \<noteq> RaiseException ''Time slot is already booked''"
proof -
  have not_free: "\<not> check_venue_availability example_db 1 0 36000 39600 None"
    by (simp add: check_venue_availability_def example_db_def example_reservation_def
          conflicts_def)
  have a: "create_reservation example_env example_db 1 3 1 0 36000 39600 1 0 None
     = Some (Inl VenueUnavailable, example_db)"
    using create_reservation_preconditions
            [of example_db 3 example_env 1 1 0 36000 39600 1 0 None VenueUnavailable example_db,
             THEN conjunct1]
    by (simp add: example_db_def)
  have b: "create_reservation example_env example_db 1 1 4 0 43200 46800 1 0 None
     = Some (Inl SlotUnavailable, example_db)"
    using create_reservation_preconditions
            [of example_db 1 example_env 1 4 0 43200 46800 1 0 None SlotUnavailable example_db,
             THEN conjunct2, THEN conjunct1]
    by (simp add: example_db_def)
  have c: "create_reservation example_env example_db 1 1 1 0 36000 39600 1 0 None
     = Some (Inl SlotAlreadyBooked, example_db)"
    using not_free create_reservation_preconditions
            [of example_db 1 example_env 1 1 0 36000 39600 1 0 None SlotAlreadyBooked example_db,
             THEN conjunct2, THEN conjunct2, THEN conjunct1]
    by (simp add: example_db_def)
  have l: "\<forall>msg. CheckViolation ''valid_discount'' \<noteq> RaiseException msg"
    using create_reservation_preconditions
            [of example_db 4 example_env 3 5 3 36000 39600 1 150 None
                "CheckViolation ''valid_discount''" example_db,
             THEN conjunct2, THEN conjunct2, THEN conjunct2, THEN conjunct2, THEN conjunct1]
          example_venue_and_slot(1,2) example_available(1) example_create_discount
    by blast
  from a b c l show ?thesis by blast
qed

text \<open>
  A failure that is no raised message: venue 4 booked with a discount of 150 passes the
  three checks and fails on the table's constraint \<open>valid_discount\<close>.
\<close>

theorem generic_error_counterexample:
  "create_reservation example_env example_db 3 4 5 3 36000 39600 1 150 None
     = Some (Inl (CheckViolation ''valid_discount''), example_db)"
  using example_create_discount by simp

subsection \<open>Creating a reservation: the inserted row\<close>

text \<open>
  Venue 4 of the example, 100000 an hour, booked for one hour with a discount of 10.004:
  the column \<open>discount_percentage DECIMAL(5,2)\<close> keeps 10.00, and the total is computed
  from the discount as passed, 100000 * (1 - 10.004 / 100) = 89996.
\<close>

lemma example_insert_fraction:
  "insert_reservation example_env example_db ''OSC200001010042'' 3 4 5 3 36000 39600 1
       (Some 100000) (2501 / 250) (Some (100000 * (1 - 2501 / 250 / 100))) None
     = Inr (103, example_db\<lparr>reservations := reservations example_db @
          [new_reservation_row example_env ''OSC200001010042'' 3 4 5 3 36000 39600 1 100000 10
             89996 None]\<rparr>)"
  by (simp add: insert_reservation_def to_decimal_column_def ROUND_def
        floor_rat_numeral_div example_tables example_reservation_def example_env_def)

lemma example_create_fraction:
  "create_reservation example_env example_db 3 4 5 3 36000 39600 1 (2501 / 250) None
     = Some (Inr 103, example_db\<lparr>reservations := reservations example_db @
          [new_reservation_row example_env ''OSC200001010042'' 3 4 5 3 36000 39600 1 100000 10
             89996 None]\<rparr>)"
  unfolding create_reservation_def
  by (simp only: create_evaluation example_insert_fraction)

text \<open>
  C3 (as amended). When \<open>create_reservation\<close> succeeds, the reservations table is the old
  one with exactly one row added, and the row has the returned id and the status pending.
  Its \<open>discount_percentage\<close> is the discount passed to the call rounded to two decimal
  places, and its \<open>total_price\<close> is \<open>base_price * (1 - d / 100)\<close> rounded to two decimal
  places, where \<open>d\<close> is the discount passed to the call, not the stored one. The stored
  total is the exact product whenever the product has no more than two decimals. When the
  discount passed has no more than two decimals, the row stores it unchanged, and then the
  relation holds between the fields of the row itself: \<open>total_price\<close> is
  \<open>base_price * (1 - discount_percentage / 100)\<close> rounded to two decimal places. A discount
  of 10 on a base price of 100000 gives a row with discount 10 and total 90000.
\<close>

theorem created_row_pending_with_rounded_total:
  assumes "create_reservation e d u vid sid dt s t dur disc n = Some (Inr rid, d')"
  shows "\<exists>row. d' = d\<lparr>reservations := reservations d @ [row]\<rparr>
           \<and> r_id row = rid
           \<and> r_status row = Some Pending
           \<and> r_discount_percentage row = Some (ROUND disc 2)
           \<and> r_total_price row = ROUND (r_base_price row * (1 - disc / 100)) 2
           \<and> ((\<exists>k. r_base_price row * (1 - disc / 100) = of_int k / 100) \<longrightarrow>
                r_total_price row = r_base_price row * (1 - disc / 100))
           \<and> ((\<exists>j. disc = of_int j / 100) \<longrightarrow>
                r_discount_percentage row = Some disc
                \<and> r_total_price row
                    = ROUND (r_base_price row
                             * (1 - COALESCE (r_discount_percentage row) 0 / 100)) 2)
           \<and> (r_base_price row = 100000 \<and> disc = 10 \<longrightarrow>
                r_discount_percentage row = Some 10 \<and> r_total_price row = 90000)"
proof -
  from create_reservation_success[OF assms] obtain bp code where
    d': "d' = d\<lparr>reservations := reservations d @
                     [new_reservation_row e code u vid sid dt s t (ROUND dur 1) bp
                        (ROUND disc 2) (ROUND (bp * (1 - disc / 100)) 2) n]\<rparr>"
    and rid: "rid = new_uuid e"
    by blast
  let ?row = "new_reservation_row e code u vid sid dt s t (ROUND dur 1) bp
                        (ROUND disc 2) (ROUND (bp * (1 - disc / 100)) 2) n"
  have sel: "r_id ?row = new_uuid e" "r_status ?row = Some Pending"
    "r_discount_percentage ?row = Some (ROUND disc 2)" "r_base_price ?row = bp"
    "r_total_price ?row = ROUND (bp * (1 - disc / 100)) 2"
    by (simp_all add: new_reservation_row_def)
  have c1: "d' = d\<lparr>reservations := reservations d @ [?row]\<rparr>" by (rule d')
  have c2: "r_id ?row = rid" unfolding sel rid by (rule refl)
  have c3: "r_status ?row = Some Pending" by (rule sel(2))
  have c4: "r_discount_percentage ?row = Some (ROUND disc 2)" by (rule sel(3))
  have c5: "r_total_price ?row = ROUND (r_base_price ?row * (1 - disc / 100)) 2"
    unfolding sel by (rule refl)
  have c6: "(\<exists>k. r_base_price ?row * (1 - disc / 100) = of_int k / 100) \<longrightarrow>
                r_total_price ?row = r_base_price ?row * (1 - disc / 100)"
    unfolding sel using ROUND_two_decimals by blast
  have stored: "(\<exists>j. disc = of_int j / 100) \<longrightarrow> ROUND disc 2 = disc"
    using ROUND_two_decimals by blast
  have c7: "(\<exists>j. disc = of_int j / 100) \<longrightarrow>
                r_discount_percentage ?row = Some disc
                \<and> r_total_price ?row
                    = ROUND (r_base_price ?row
                             * (1 - COALESCE (r_discount_percentage ?row) 0 / 100)) 2"
  proof (intro impI conjI)
    assume "\<exists>j. disc = of_int j / 100"
    with stored have r: "ROUND disc 2 = disc" by (rule mp)
    show dp: "r_discount_percentage ?row = Some disc" using sel(3) unfolding r .
    show "r_total_price ?row
            = ROUND (r_base_price ?row * (1 - COALESCE (r_discount_percentage ?row) 0 / 100)) 2"
      unfolding dp sel(4) sel(5) COALESCE_def option.case by (rule refl)
  qed
  have c8: "r_base_price ?row = 100000 \<and> disc = 10 \<longrightarrow>
                r_discount_percentage ?row = Some 10 \<and> r_total_price ?row = 90000"
    unfolding sel by (simp add: ROUND_def floor_rat_numeral_div)
  have "d' = d\<lparr>reservations := reservations d @ [?row]\<rparr>
           \<and> r_id ?row = rid
           \<and> r_status ?row = Some Pending
           \<and> r_discount_percentage ?row = Some (ROUND disc 2)
           \<and> r_total_price ?row = ROUND (r_base_price ?row * (1 - disc / 100)) 2
           \<and> ((\<exists>k. r_base_price ?row * (1 - disc / 100) = of_int k / 100) \<longrightarrow>
                r_total_price ?row = r_base_price ?row * (1 - disc / 100))
           \<and> ((\<exists>j. disc = of_int j / 100) \<longrightarrow>
                r_discount_percentage ?row = Some disc
                \<and> r_total_price ?row
                    = ROUND (r_base_price ?row
                             * (1 - COALESCE (r_discount_percentage ?row) 0 / 100)) 2)
           \<and> (r_base_price ?row = 100000 \<and> disc = 10 \<longrightarrow>
                r_discount_percentage ?row = Some 10 \<and> r_total_price ?row = 90000)"
    by (intro conjI c1 c2 c3 c4 c5 c6 c7 c8)
  then show ?thesis by blast
qed

text \<open>Venue 4 of the example, 100000 an hour, booked for one hour with a discount of 10.\<close>

theorem created_row_pending_with_rounded_total_witness:
  "create_reservation example_env example_db 3 4 5 3 36000 39600 1 10 None
     = Some (Inr 103, example_db\<lparr>reservations := reservations example_db @
          [new_reservation_row example_env ''OSC200001010042'' 3 4 5 3 36000 39600 1 100000 10
             90000 None]\<rparr>)
   \<and> (\<exists>row. example_db\<lparr>reservations := reservations example_db @
          [new_reservation_row example_env ''OSC200001010042'' 3 4 5 3 36000 39600 1 100000 10
             90000 None]\<rparr> = example_db\<lparr>reservations := reservations example_db @ [row]\<rparr>
        \<and> r_id row = 103 \<and> r_status row = Some Pending
        \<and> r_discount_percentage row = Some (ROUND 10 2)
        \<and> r_total_price row = ROUND (r_base_price row * (1 - 10 / 100)) 2)"
  using created_row_pending_with_rounded_total[OF example_create(1)] example_create(1)
  by blast

text \<open>
  The claim as written fails in two ways. On venue 2 of the example, 99999.99 an hour,
  with a discount of 10 the product is 89999.991 and the row holds 89999.99. On venue 4,
  100000 an hour, with a discount of 10.004 the row holds the discount 10.00 and the total
  89996, which is not 100000 * (1 - 10 / 100) = 90000, rounded or not.
\<close>

theorem total_price_exact_counterexample:
  "create_reservation example_env example_db 3 2 3 3 36000 39600 1 10 None
     = Some (Inr 103, example_db\<lparr>reservations := reservations example_db @
          [new_reservation_row example_env ''OSC200001010042'' 3 2 3 3 36000 39600 1
             (9999999 / 100) 10 (8999999 / 100) None]\<rparr>)
   \<and> r_discount_percentage (new_reservation_row example_env ''OSC200001010042'' 3 2 3 3 36000
             39600 1 (9999999 / 100) 10 (8999999 / 100) None) = Some 10
   \<and> r_total_price (new_reservation_row example_env ''OSC200001010042'' 3 2 3 3 36000 39600 1
             (9999999 / 100) 10 (8999999 / 100) None)
      \<noteq> r_base_price (new_reservation_row example_env ''OSC200001010042'' 3 2 3 3 36000 39600 1
             (9999999 / 100) 10 (8999999 / 100) None) * (1 - 10 / 100)
   \<and> create_reservation example_env example_db 3 4 5 3 36000 39600 1 (2501 / 250) None
     = Some (Inr 103, example_db\<lparr>reservations := reservations example_db @
          [new_reservation_row example_env ''OSC200001010042'' 3 4 5 3 36000 39600 1 100000 10
             89996 None]\<rparr>)
   \<and> r_discount_percentage (new_reservation_row example_env ''OSC200001010042'' 3 4 5 3 36000
             39600 1 100000 10 89996 None) = Some 10
   \<and> r_total_price (new_reservation_row example_env ''OSC200001010042'' 3 4 5 3 36000 39600 1
             100000 10 89996 None)
      \<noteq> r_base_price (new_reservation_row example_env ''OSC200001010042'' 3 4 5 3 36000 39600 1
             100000 10 89996 None) * (1 - 10 / 100)"
  using example_create(2) example_create_fraction by (simp add: new_reservation_row_def)

subsection \<open>Creating a reservation: the stored duration\<close>






subsection \<open>Reservation codes\<close>

lemma code_exists_iff:
  "(filter (\<lambda>r. r_reservation_code r = c) rs \<noteq> []) = (c \<in> r_reservation_code ` set rs)"
  by (auto simp: filter_empty_conv)

lemma generate_reservation_code_Some:
  "generate_reservation_code d td ks = Some c \<Longrightarrow>
     c \<notin> r_reservation_code ` set (reservations d)
     \<and> (\<exists>k \<in> set ks. c = reservation_code_of td k)"
  by (induction ks) (auto simp: Let_def code_exists_iff split: if_splits)

lemma generate_reservation_code_returns:
  "\<exists>k \<in> set ks. reservation_code_of td k \<notin> r_reservation_code ` set (reservations d) \<Longrightarrow>
     \<exists>c. generate_reservation_code d td ks = Some c"
  by (induction ks) (auto simp: Let_def code_exists_iff)

lemma generate_reservation_code_None:
  "generate_reservation_code d td ks = None \<longleftrightarrow>
     (\<forall>k \<in> set ks. reservation_code_of td k \<in> r_reservation_code ` set (reservations d))"
  by (induction ks) (auto simp: Let_def code_exists_iff)

lemma length_LPAD: "length (LPAD s n c) = n"
  by (simp add: LPAD_def)

lemma create_reservation_distinct_codes:
  assumes "create_reservation e d u vid sid dt s t dur disc n = Some (Inr rid, d')"
    and "distinct (map r_reservation_code (reservations d))"
  shows "distinct (map r_reservation_code (reservations d'))"
proof -
  from create_reservation_success[OF assms(1)] obtain bp code where
    fresh: "code \<notin> r_reservation_code ` set (reservations d)" and
    d': "d' = d\<lparr>reservations := reservations d @
                     [new_reservation_row e code u vid sid dt s t (ROUND dur 1) bp
                        (ROUND disc 2) (ROUND (bp * (1 - disc / 100)) 2) n]\<rparr>"
    by blast
  show ?thesis using assms(2) fresh by (simp add: d' new_reservation_row_def)
qed


lemma generate_reservation_code_first:
  "generate_reservation_code d td ks = Some c \<Longrightarrow>
     \<exists>ks1 k ks2. ks = ks1 @ k # ks2 \<and> c = reservation_code_of td k
        \<and> (\<forall>k' \<in> set ks1. reservation_code_of td k' \<in> r_reservation_code ` set (reservations d))"
proof (induction ks)
  case Nil
  then show ?case by simp
next
  case (Cons k ks)
  show ?case
  proof (cases "reservation_code_of td k \<in> r_reservation_code ` set (reservations d)")
    case True
    with Cons.prems have "generate_reservation_code d td ks = Some c"
      by (simp add: Let_def code_exists_iff)
    from Cons.IH[OF this] obtain ks1 k1 ks2 where
      h: "ks = ks1 @ k1 # ks2" "c = reservation_code_of td k1"
         "\<forall>k' \<in> set ks1. reservation_code_of td k' \<in> r_reservation_code ` set (reservations d)"
      by blast
    have "k # ks = (k # ks1) @ k1 # ks2" using h(1) by simp
    moreover have "\<forall>k' \<in> set (k # ks1).
        reservation_code_of td k' \<in> r_reservation_code ` set (reservations d)"
      using h(3) True by simp
    ultimately show ?thesis using h(2) by blast
  next
    case False
    with Cons.prems have "c = reservation_code_of td k"
      by (simp add: Let_def code_exists_iff)
    then have "k # ks = [] @ k # ks \<and> c = reservation_code_of td k
        \<and> (\<forall>k' \<in> set []. reservation_code_of td k' \<in> r_reservation_code ` set (reservations d))"
      by simp
    then show ?thesis by blast
  qed
qed

lemma example_generate:
  "generate_reservation_code example_db ''20000101'' [1, 42] = Some ''OSC200001010042''"
  "generate_reservation_code example_db ''20000101'' [42] = Some ''OSC200001010042''"
  by (simp_all add: example_tables example_reservation_def reservation_code_of_def
        LPAD_def numeral_2_eq_2 numeral_3_eq_3)

lemma example_distinct: "distinct (map r_reservation_code (reservations example_db))"
  by (simp add: example_tables example_reservation_def)

lemma generateReservationCode_example:
  "generateReservationCode ''946684800123'' ''0.4fzyo82mvyr'' = ''OSC8001234FZ''"
  by (simp add: generateReservationCode_def toUpperCase_def)

text \<open>
  C4 (as amended). \<open>generate_reservation_code\<close> returns a code made of the prefix
  \<open>OSC\<close>, the date stamp and a four-character suffix (the draw, padded with zeros): the
  code of the first draw that equals no code stored in the reservations table, every
  earlier draw having collided. So the code it returns is not in the table, and it does
  return one as soon as some draw is free. A successful \<open>create_reservation\<close> stores the
  code it generated, a code no stored row has: reservations created one after the other
  never share a code. Codes generated without being stored are not remembered.
\<close>

theorem generated_code_not_stored:
  "(generate_reservation_code d td ks = Some c \<longrightarrow>
      c \<notin> r_reservation_code ` set (reservations d)
      \<and> (\<exists>ks1 k ks2. ks = ks1 @ k # ks2
            \<and> c = ''OSC'' @ td @ LPAD (nat_to_text k) 4 CHR ''0''
            \<and> (\<forall>k' \<in> set ks1. reservation_code_of td k'
                                 \<in> r_reservation_code ` set (reservations d)))
      \<and> length c = 3 + length td + 4)
   \<and> ((\<exists>k \<in> set ks. reservation_code_of td k \<notin> r_reservation_code ` set (reservations d))
        \<longrightarrow> (\<exists>c'. generate_reservation_code d td ks = Some c'))
   \<and> (create_reservation e d u vid sid dt s t dur disc n = Some (Inr rid, d')
       \<and> distinct (map r_reservation_code (reservations d))
        \<longrightarrow> distinct (map r_reservation_code (reservations d'))
            \<and> (\<exists>row. reservations d' = reservations d @ [row]
                  \<and> r_reservation_code row \<notin> r_reservation_code ` set (reservations d)))"
proof -
  have gen: "c \<notin> r_reservation_code ` set (reservations d)
      \<and> (\<exists>ks1 k ks2. ks = ks1 @ k # ks2
            \<and> c = ''OSC'' @ td @ LPAD (nat_to_text k) 4 CHR ''0''
            \<and> (\<forall>k' \<in> set ks1. reservation_code_of td k'
                                 \<in> r_reservation_code ` set (reservations d)))
      \<and> length c = 3 + length td + 4"
    if g: "generate_reservation_code d td ks = Some c"
  proof -
    from generate_reservation_code_first[OF g] obtain ks1 k ks2 where
      h: "ks = ks1 @ k # ks2" "c = reservation_code_of td k"
         "\<forall>k' \<in> set ks1. reservation_code_of td k' \<in> r_reservation_code ` set (reservations d)"
      by blast
    have len: "length c = 3 + length td + 4"
      by (simp add: h(2) reservation_code_of_def length_LPAD)
    have form: "c = ''OSC'' @ td @ LPAD (nat_to_text k) 4 CHR ''0''"
      by (simp add: h(2) reservation_code_of_def)
    from generate_reservation_code_Some[OF g] h(1) h(3) form len show ?thesis by blast
  qed
  have ret: "(\<exists>k \<in> set ks. reservation_code_of td k \<notin> r_reservation_code ` set (reservations d))
        \<longrightarrow> (\<exists>c'. generate_reservation_code d td ks = Some c')"
    using generate_reservation_code_returns by blast
  have seq: "distinct (map r_reservation_code (reservations d'))
            \<and> (\<exists>row. reservations d' = reservations d @ [row]
                  \<and> r_reservation_code row \<notin> r_reservation_code ` set (reservations d))"
    if ok: "create_reservation e d u vid sid dt s t dur disc n = Some (Inr rid, d')"
      and dist: "distinct (map r_reservation_code (reservations d))"
  proof -
    from create_reservation_success[OF ok] obtain bp code where
      fresh: "code \<notin> r_reservation_code ` set (reservations d)" and
      d': "d' = d\<lparr>reservations := reservations d @
                     [new_reservation_row e code u vid sid dt s t (ROUND dur 1) bp
                        (ROUND disc 2) (ROUND (bp * (1 - disc / 100)) 2) n]\<rparr>"
      by blast
    have "reservations d' = reservations d @
                     [new_reservation_row e code u vid sid dt s t (ROUND dur 1) bp
                        (ROUND disc 2) (ROUND (bp * (1 - disc / 100)) 2) n]
          \<and> r_reservation_code (new_reservation_row e code u vid sid dt s t (ROUND dur 1) bp
                        (ROUND disc 2) (ROUND (bp * (1 - disc / 100)) 2) n)
              \<notin> r_reservation_code ` set (reservations d)"
      using fresh by (simp add: d' new_reservation_row_def)
    with create_reservation_distinct_codes[OF ok dist] show ?thesis by blast
  qed
  from gen ret seq show ?thesis by blast
qed

text \<open>On the example: the draws 1 and 42, of which the code of 1 is taken.\<close>

theorem generated_code_not_stored_witness:
  "''OSC200001010042'' \<notin> r_reservation_code ` set (reservations example_db)
   \<and> length ''OSC200001010042'' = 3 + length ''20000101'' + 4
   \<and> (\<exists>c'. generate_reservation_code example_db ''20000101'' [1, 42] = Some c')
   \<and> distinct (map r_reservation_code (reservations
        (example_db\<lparr>reservations := reservations example_db @
          [new_reservation_row example_env ''OSC200001010042'' 3 4 5 3 36000 39600 1 100000 10
             90000 None]\<rparr>)))"
proof -
  note t = generated_code_not_stored
     [of example_db "''20000101''" "[1, 42]" "''OSC200001010042''"
         example_env 3 4 5 3 36000 39600 1 10 None 103
         "example_db\<lparr>reservations := reservations example_db @
            [new_reservation_row example_env ''OSC200001010042'' 3 4 5 3 36000 39600 1 100000 10
               90000 None]\<rparr>"]
  have free: "\<exists>k \<in> set [1, 42]. reservation_code_of ''20000101'' k
               \<notin> r_reservation_code ` set (reservations example_db)"
    by (simp add: example_tables example_reservation_def reservation_code_of_def
          LPAD_def numeral_2_eq_2 numeral_3_eq_3)
  from t example_generate(1) example_create(1) example_distinct free show ?thesis
    by blast
qed

text \<open>
  Generating twice in a row, with nothing stored in between, can give the same code
  twice: here the second call draws 42 at once, the first after a collision.
\<close>

theorem generating_twice_counterexample:
  "generate_reservation_code example_db ''20000101'' [1, 42] = Some ''OSC200001010042''
   \<and> generate_reservation_code example_db ''20000101'' [42] = Some ''OSC200001010042''"
  using example_generate by simp

subsection \<open>Pricing\<close>

lemma calculate_venue_price_eq:
  assumes "find (\<lambda>v. v_id v = vid \<and> v_is_active v = Some True) (venues d) = Some v"
    and "find (slot_contains vid s) (venue_time_slots d) = Some vts"
  shows "calculate_venue_price d vid dt s dur =
           Inr (Some (ROUND ((if DOW dt = 0 \<or> DOW dt = 6
                              then COALESCE (v_weekend_price v) (v_base_price v)
                              else v_base_price v)
                             * COALESCE (vts_price_multiplier vts) 1 * dur) 2))"
  using assms
  by (auto simp: calculate_venue_price_def Let_def COALESCE_def
           split: option.splits bool.splits)

lemma ROUND_nearest: "\<bar>ROUND x 2 - x\<bar> \<le> 1 / 200"
proof -
  define y where "y = \<bar>x\<bar> * 100"
  define n where "n = \<lfloor>y + 1 / 2\<rfloor>"
  have lo: "of_int n \<le> y + 1 / 2" unfolding n_def by (rule of_int_floor_le)
  have hi: "y + 1 / 2 < of_int n + 1" unfolding n_def by linarith
  have r: "ROUND x 2 = sgn x * (of_int n / 100)"
    by (simp add: ROUND_def n_def y_def)
  have x: "x = sgn x * (y / 100)" by (simp add: y_def sgn_mult_abs)
  have "ROUND x 2 - x = sgn x * ((of_int n - y) / 100)"
    by (subst x, subst r) (simp add: algebra_simps diff_divide_distrib)
  then have "\<bar>ROUND x 2 - x\<bar> = \<bar>sgn x\<bar> * \<bar>(of_int n - y) / 100\<bar>"
    by (simp only: abs_mult)
  also have "\<dots> \<le> 1 * \<bar>(of_int n - y) / 100\<bar>"
    by (rule mult_right_mono) (simp_all add: abs_sgn_eq)
  also have "\<dots> \<le> 1 / 200"
  proof -
    have a: "of_int n - y \<le> 1 / 2" using lo by linarith
    have b: "- (of_int n - y) \<le> 1 / 2" using hi by linarith
    from a b have "\<bar>of_int n - y\<bar> \<le> 1 / 2" by (rule abs_leI)
    then show ?thesis by simp
  qed
  finally show ?thesis .
qed

text \<open>
  The form's \<open>calculatePrice\<close> once the venue and the start slot are found: the double
  product of the price per hour and the duration, rounded to a whole number.
\<close>

lemma calculatePrice_form_eq:
  assumes "form_venueId data \<noteq> []" "form_startTime data \<noteq> []" "form_endTime data \<noteq> []"
    "form_date data \<noteq> []"
    and "find (\<lambda>v. Venue_id v = form_venueId data) vs = Some venue"
    and "find (\<lambda>slot. TimeSlot_start_time slot = form_startTime data) slots = Some startSlot"
    and "getTime (form_startTime data) = Some a" "getTime (form_endTime data) = Some b"
  shows "calculatePrice_form fl getTime utcMinutes tz vs slots data =
           Some (of_int \<lfloor>d_times fl
             (d_times fl
                (if (getDay utcMinutes tz (form_date data) = Some 0
                     \<or> getDay utcMinutes tz (form_date data) = Some 6)
                    \<and> truthy (Venue_weekend_price venue)
                 then COALESCE (Venue_weekend_price venue) 0
                 else Venue_base_price venue)
                (if getDay utcMinutes tz (form_date data) = Some 0
                    \<or> getDay utcMinutes tz (form_date data) = Some 6
                 then or_default (TimeSlot_price_weekend startSlot) 1
                 else or_default (TimeSlot_price_weekday startSlot) 1))
             (d_divide fl (b - a) 3600000) + 1 / 2\<rfloor>)"
  using assms by (simp add: calculatePrice_form_def Let_def num_op_def Math_round_def)


lemma weekend_price_choice:
  "(if w \<and> truthy wp then COALESCE wp 0 else base)
     = (if w \<and> wp \<noteq> Some 0 then COALESCE wp base else base)"
  by (cases wp) (simp_all add: truthy_def COALESCE_def)

lemma example_find_venue_1:
  "find (\<lambda>v. v_id v = 1 \<and> v_is_active v = Some True) (venues example_db)
     = Some \<lparr>v_id = 1, v_base_price = 150000, v_weekend_price = Some 200000,
             v_is_active = Some True\<rparr>"
  "find (slot_contains 1 36000) (venue_time_slots example_db)
     = Some \<lparr>vts_id = 1, vts_venue_id = 1, vts_start_time = 36000, vts_end_time = 39600,
             vts_is_available = Some True, vts_price_multiplier = Some 1\<rparr>"
  by (simp_all add: example_tables slot_contains_def)

lemma example_form_finds:
  "find (\<lambda>v. Venue_id v = form_venueId (example_form dt ''11:00:00'' ''12:00:00'')) example_Venues
     = Some \<lparr>Venue_id = ''v1'', Venue_base_price = 150000, Venue_weekend_price = Some 200000\<rparr>"
  "find (\<lambda>slot. TimeSlot_start_time slot = form_startTime (example_form dt ''11:00:00'' ''12:00:00''))
      example_TimeSlots = Some (example_TimeSlot ''s3'' ''11:00:00'' ''12:00:00'')"
  "find (\<lambda>v. Venue_id v = form_venueId (example_form dt ''11:00:00'' ''12:00:00''))
      example_Venues_zero
     = Some \<lparr>Venue_id = ''v1'', Venue_base_price = 150000, Venue_weekend_price = Some 0\<rparr>"
  by (simp_all add: example_form_def example_Venues_def example_Venues_zero_def
        example_TimeSlots_def example_TimeSlot_def example_getTime_def)






lemma ROUND_cents: "\<exists>k::int. ROUND x 2 = of_int k / 100"
proof -
  define n where "n = \<lfloor>\<bar>x\<bar> * 10 ^ 2 + 1 / 2\<rfloor>"
  have "ROUND x 2 = of_int (sgn n * 0 + (if x < 0 then - n else if x = 0 then 0 else n)) / 100"
    by (simp add: ROUND_def n_def sgn_if)
  then show ?thesis by blast
qed

text \<open>
  C6 (as amended). For every booking that \<open>calculate_venue_price\<close> prices (venue found,
  slot matched), the price is the venue's rate for the date's day class, times the
  matched slot's \<open>price_multiplier\<close> (one multiplier, the same on weekdays and weekends,
  1.0 when it is NULL), times the duration in hours, rounded to two decimal places:
  a whole number of hundredths, at most half a hundredth from the product. The booking
  form's \<open>calculatePrice\<close> is where the multiplier depends on the day class
  (\<open>price_weekday\<close> or \<open>price_weekend\<close>, 1 when null or zero) and where the result is a
  whole number: the form multiplies the rate by the multiplier and the product by the
  hours as doubles, and rounds what the last multiplication returns.
\<close>

theorem price_to_two_decimals:
  "(find (\<lambda>v. v_id v = vid \<and> v_is_active v = Some True) (venues d) = Some v
     \<and> find (slot_contains vid s) (venue_time_slots d) = Some vts \<longrightarrow>
      (\<exists>p. calculate_venue_price d vid dt s dur = Inr (Some p)
         \<and> p = ROUND ((if DOW dt = 6 \<or> DOW dt = 0
                       then COALESCE (v_weekend_price v) (v_base_price v)
                       else v_base_price v)
                      * COALESCE (vts_price_multiplier vts) 1 * dur) 2
         \<and> \<bar>p - (if DOW dt = 6 \<or> DOW dt = 0
                   then COALESCE (v_weekend_price v) (v_base_price v)
                   else v_base_price v)
                  * COALESCE (vts_price_multiplier vts) 1 * dur\<bar> \<le> 1 / 200
         \<and> (\<exists>k::int. p = of_int k / 100)))
   \<and> (form_venueId data \<noteq> [] \<and> form_startTime data \<noteq> [] \<and> form_endTime data \<noteq> []
       \<and> form_date data \<noteq> []
       \<and> find (\<lambda>v. Venue_id v = form_venueId data) vs = Some venue
       \<and> find (\<lambda>slot. TimeSlot_start_time slot = form_startTime data) slots = Some startSlot
       \<and> getTime (form_startTime data) = Some a \<and> getTime (form_endTime data) = Some b \<longrightarrow>
         calculatePrice_form fl getTime utcMinutes tz vs slots data =
           Some (of_int \<lfloor>d_times fl
             (d_times fl
                (if (getDay utcMinutes tz (form_date data) = Some 0
                     \<or> getDay utcMinutes tz (form_date data) = Some 6)
                    \<and> Venue_weekend_price venue \<noteq> Some 0
                 then COALESCE (Venue_weekend_price venue) (Venue_base_price venue)
                 else Venue_base_price venue)
                (if getDay utcMinutes tz (form_date data) = Some 0
                    \<or> getDay utcMinutes tz (form_date data) = Some 6
                 then or_default (TimeSlot_price_weekend startSlot) 1
                 else or_default (TimeSlot_price_weekday startSlot) 1))
             (d_divide fl (b - a) 3600000) + 1 / 2\<rfloor>))"
proof -
  have sql: "\<exists>p. calculate_venue_price d vid dt s dur = Inr (Some p)
         \<and> p = ROUND ((if DOW dt = 6 \<or> DOW dt = 0
                       then COALESCE (v_weekend_price v) (v_base_price v)
                       else v_base_price v)
                      * COALESCE (vts_price_multiplier vts) 1 * dur) 2
         \<and> \<bar>p - (if DOW dt = 6 \<or> DOW dt = 0
                   then COALESCE (v_weekend_price v) (v_base_price v)
                   else v_base_price v)
                  * COALESCE (vts_price_multiplier vts) 1 * dur\<bar> \<le> 1 / 200
         \<and> (\<exists>k::int. p = of_int k / 100)"
    if h: "find (\<lambda>v. v_id v = vid \<and> v_is_active v = Some True) (venues d) = Some v"
          "find (slot_contains vid s) (venue_time_slots d) = Some vts"
  proof -
    let ?q = "(if DOW dt = 6 \<or> DOW dt = 0
                   then COALESCE (v_weekend_price v) (v_base_price v)
                   else v_base_price v)
                  * COALESCE (vts_price_multiplier vts) 1 * dur"
    have "calculate_venue_price d vid dt s dur = Inr (Some (ROUND ?q 2))"
      using calculate_venue_price_eq[OF h, of dt dur] by (simp add: disj_commute)
    with ROUND_nearest[of ?q] ROUND_cents[of ?q] show ?thesis by blast
  qed
  have form: "calculatePrice_form fl getTime utcMinutes tz vs slots data =
           Some (of_int \<lfloor>d_times fl
             (d_times fl
                (if (getDay utcMinutes tz (form_date data) = Some 0
                     \<or> getDay utcMinutes tz (form_date data) = Some 6)
                    \<and> Venue_weekend_price venue \<noteq> Some 0
                 then COALESCE (Venue_weekend_price venue) (Venue_base_price venue)
                 else Venue_base_price venue)
                (if getDay utcMinutes tz (form_date data) = Some 0
                    \<or> getDay utcMinutes tz (form_date data) = Some 6
                 then or_default (TimeSlot_price_weekend startSlot) 1
                 else or_default (TimeSlot_price_weekday startSlot) 1))
             (d_divide fl (b - a) 3600000) + 1 / 2\<rfloor>)"
    if h: "form_venueId data \<noteq> []" "form_startTime data \<noteq> []" "form_endTime data \<noteq> []"
       "form_date data \<noteq> []"
       "find (\<lambda>v. Venue_id v = form_venueId data) vs = Some venue"
       "find (\<lambda>slot. TimeSlot_start_time slot = form_startTime data) slots = Some startSlot"
       "getTime (form_startTime data) = Some a" "getTime (form_endTime data) = Some b"
    unfolding calculatePrice_form_eq[OF h] weekend_price_choice by (rule refl)
  from sql form show ?thesis by blast
qed

text \<open>
  Venue 1 of the example for one hour on Saturday 2000-01-01, and the form for 11:00 to
  12:00 on Tuesday 2000-01-04.
\<close>

theorem price_to_two_decimals_witness:
  "(\<exists>p. calculate_venue_price example_db 1 0 36000 1 = Inr (Some p)
         \<and> p = ROUND (200000 * 1 * 1) 2
         \<and> \<bar>p - 200000 * 1 * 1\<bar> \<le> 1 / 200
         \<and> (\<exists>k::int. p = of_int k / 100))
   \<and> calculatePrice_form example_arith example_getTime example_utcMinutes 420 example_Venues
        example_TimeSlots (example_form ''2000-01-04'' ''11:00:00'' ''12:00:00'')
       = Some (of_int \<lfloor>(150000 * 1 * (3600000 / 3600000) + 1 / 2 :: rat)\<rfloor>)"
proof -
  have sql: "\<exists>p. calculate_venue_price example_db 1 0 36000 1 = Inr (Some p)
         \<and> p = ROUND (200000 * 1 * 1) 2
         \<and> \<bar>p - 200000 * 1 * 1\<bar> \<le> 1 / 200
         \<and> (\<exists>k::int. p = of_int k / 100)"
    using price_to_two_decimals
            [where vid = 1 and d = example_db
               and v = "\<lparr>v_id = 1, v_base_price = 150000, v_weekend_price = Some 200000,
                  v_is_active = Some True\<rparr>"
               and s = 36000
               and vts = "\<lparr>vts_id = 1, vts_venue_id = 1, vts_start_time = 36000, vts_end_time = 39600,
                  vts_is_available = Some True, vts_price_multiplier = Some 1\<rparr>"
               and dt = 0 and dur = 1]
          example_find_venue_1
    by (simp add: DOW_def COALESCE_def)
  have form: "calculatePrice_form example_arith example_getTime example_utcMinutes 420
        example_Venues example_TimeSlots (example_form ''2000-01-04'' ''11:00:00'' ''12:00:00'')
       = Some (of_int \<lfloor>(150000 * 1 * (3600000 / 3600000) + 1 / 2 :: rat)\<rfloor>)"
    using price_to_two_decimals
            [where data = "example_form ''2000-01-04'' ''11:00:00'' ''12:00:00''"
               and vs = example_Venues and slots = example_TimeSlots
               and getTime = example_getTime and utcMinutes = example_utcMinutes
               and tz = 420 and fl = example_arith
               and a = 39600000 and b = 43200000
               and venue = "\<lparr>Venue_id = ''v1'', Venue_base_price = 150000,
                              Venue_weekend_price = Some 200000\<rparr>"
               and startSlot = "example_TimeSlot ''s3'' ''11:00:00'' ''12:00:00''"]
          example_form_finds(1,2)[of "''2000-01-04''"]
    by (simp add: example_form_def example_getTime_def example_utcMinutes_def getDay_def
          example_TimeSlot_def or_default_def example_arith_def DOW_def COALESCE_def
          floor_rat_numeral_div)
  from sql form show ?thesis by blast
qed

text \<open>
  The price is not a whole number of currency units: venue 2 (99999.99 an hour, multiplier
  NULL) for one hour on a weekday costs 99999.99, not 100000.
\<close>

theorem price_whole_unit_counterexample:
  "calculate_venue_price example_db 2 3 36000 1 = Inr (Some (9999999 / 100))
   \<and> calculate_venue_price example_db 2 3 36000 1
       \<noteq> Inr (Some (of_int \<lfloor>(9999999 / 100 * 1 * 1 + 1 / 2 :: rat)\<rfloor>))"
  using example_price(2) by (simp add: floor_rat_numeral_div)

lemma find_in_set:
  assumes "\<exists>x \<in> set xs. P x"
  shows "\<exists>y. find P xs = Some y \<and> y \<in> set xs \<and> P y"
proof (cases "find P xs")
  case None
  with assms show ?thesis by (simp add: find_None_iff)
next
  case (Some y)
  then obtain i where "i < length xs" "P (xs ! i)" "y = xs ! i"
    unfolding find_Some_iff by blast
  with Some show ?thesis by auto
qed

lemma find_first:
  "i < length xs \<Longrightarrow> P (xs ! i) \<Longrightarrow> (\<forall>j<i. \<not> P (xs ! j)) \<Longrightarrow> find P xs = Some (xs ! i)"
  by (auto simp: find_Some_iff)

lemma find_none: "(\<forall>x \<in> set xs. \<not> P x) \<Longrightarrow> find P xs = None"
  by (simp add: find_None_iff)

lemma calculate_venue_price_error:
  assumes "calculate_venue_price d vid dt s dur = Inl err"
  shows "err = RaiseException ''Venue not found or inactive''
         \<and> find (\<lambda>v. v_id v = vid \<and> v_is_active v = Some True) (venues d) = None"
  using assms by (simp add: calculate_venue_price_def Let_def split: option.splits)

lemma calculatePrice_first:
  assumes "find (applicable getTime (getTime (startTime @ '':00'')) (getTime (endTime @ '':00'')))
             (filter (\<lambda>slot. TimeSlot_venue_id slot = venueId \<and> TimeSlot_is_active slot) rows)
           = Some slot"
  shows "\<exists>pc. calculatePrice fl getTime (Inr rows) venueId day startTime endTime discountPercent
                 = Inr pc
           \<and> pc_basePrice pc =
               Math_round (num_op (d_divide fl)
                 (num_op (d_times fl)
                    (Some (if day = 0 \<or> day = 6 then or_default (TimeSlot_price_weekend slot) 0
                           else or_default (TimeSlot_price_weekday slot) 0))
                    (num_op (d_divide fl)
                       (num_op (-) (getTime (endTime @ '':00'')) (getTime (startTime @ '':00'')))
                       (Some (1000 * 60))))
                 (Some 60))"
proof -
  from assms have ne: "filter (\<lambda>slot. TimeSlot_venue_id slot = venueId \<and> TimeSlot_is_active slot) rows \<noteq> []"
    by auto
  show ?thesis
    using assms ne by (simp add: calculatePrice_def Let_def)
qed

lemma calculatePrice_none:
  assumes "filter (\<lambda>slot. TimeSlot_venue_id slot = venueId \<and> TimeSlot_is_active slot) rows \<noteq> []"
    and "find (applicable getTime (getTime (startTime @ '':00'')) (getTime (endTime @ '':00'')))
             (filter (\<lambda>slot. TimeSlot_venue_id slot = venueId \<and> TimeSlot_is_active slot) rows)
           = None"
  shows "calculatePrice fl getTime (Inr rows) venueId day startTime endTime discountPercent
           = Inl ''No pricing available for the selected time slot''"
  using assms by (simp add: calculatePrice_def Let_def)

lemma floor_half: "\<lfloor>(1 / 2 :: rat)\<rfloor> = 0"
  by (rule floor_unique) simp_all

text \<open>
  Two overlapping slots of venue 1 that both contain 10:00, with the multipliers 1 and
  1.5: the price follows the slot that the query meets first. The query does not order
  its rows, so nothing below says which of several matching slots is used.
\<close>

lemma example_overlap_order:
  "calculate_venue_price (example_db\<lparr>venue_time_slots := example_overlap\<rparr>) 1 3 36000 1
     = Inr (Some 150000)"
  "calculate_venue_price (example_db\<lparr>venue_time_slots := rev example_overlap\<rparr>) 1 3 36000 1
     = Inr (Some 225000)"
  by (simp_all add: calculate_venue_price_def example_tables example_overlap_def
        slot_contains_def DOW_def COALESCE_def ROUND_def floor_rat_numeral_div)

lemma example_pricing_lib:
  "calculatePrice example_arith example_getTime (Inr example_TimeSlots) ''v1'' 2 ''10:00''
      ''12:00'' 0 = Inl ''No pricing available for the selected time slot''"
  by (rule calculatePrice_none)
     (simp_all add: example_TimeSlots_def example_TimeSlot_def example_getTime_def
        applicable_def num_le_def)

text \<open>
  C7 (as amended). \<open>calculate_venue_price\<close> takes its multiplier from an available slot of
  the venue whose interval contains the candidate start (\<open>start \<le> candidateStart < end\<close>).
  When several slots contain it, the price is that of one of them (the query takes one
  row and does not order them); when they all carry the same multiplier, and so when
  there is only one, the price is determined. The function fails for a venue that is
  missing or inactive and for nothing else: it has no ``no pricing'' failure. It is the
  pricing library's \<open>calculatePrice\<close> that fails with ``No pricing available for the
  selected time slot'', and its test is another one: among the active slots of the venue,
  in the order of the fetched array, it takes the first that contains the whole requested
  interval, from its start to its end, and fails when the venue has slots and none does.
\<close>

theorem containing_slot_priced:
  "(find (\<lambda>v. v_id v = vid \<and> v_is_active v = Some True) (venues d) = Some v
     \<and> (\<exists>vts \<in> set (venue_time_slots d). slot_contains vid s vts) \<longrightarrow>
      (\<exists>vts \<in> set (venue_time_slots d). slot_contains vid s vts
         \<and> calculate_venue_price d vid dt s dur =
             Inr (Some (ROUND ((if DOW dt = 0 \<or> DOW dt = 6
                                then COALESCE (v_weekend_price v) (v_base_price v)
                                else v_base_price v)
                               * COALESCE (vts_price_multiplier vts) 1 * dur) 2))))
   \<and> (find (\<lambda>v. v_id v = vid \<and> v_is_active v = Some True) (venues d) = Some v
       \<and> (\<exists>vts \<in> set (venue_time_slots d). slot_contains vid s vts)
       \<and> (\<forall>vts \<in> set (venue_time_slots d).
             slot_contains vid s vts \<longrightarrow> vts_price_multiplier vts = m) \<longrightarrow>
        calculate_venue_price d vid dt s dur =
          Inr (Some (ROUND ((if DOW dt = 0 \<or> DOW dt = 6
                             then COALESCE (v_weekend_price v) (v_base_price v)
                             else v_base_price v)
                            * COALESCE m 1 * dur) 2)))
   \<and> (slot_contains vid s slot' \<longleftrightarrow>
        vts_venue_id slot' = vid \<and> vts_start_time slot' \<le> s \<and> s < vts_end_time slot'
        \<and> vts_is_available slot' = Some True)
   \<and> (calculate_venue_price d vid dt s dur = Inl err \<longrightarrow>
        err = RaiseException ''Venue not found or inactive''
        \<and> find (\<lambda>v. v_id v = vid \<and> v_is_active v = Some True) (venues d) = None)
   \<and> (ts = filter (\<lambda>slot. TimeSlot_venue_id slot = venueId \<and> TimeSlot_is_active slot) rows
       \<and> k < length ts
       \<and> applicable getTime (getTime (startTime @ '':00'')) (getTime (endTime @ '':00'')) (ts ! k)
       \<and> (\<forall>j<k. \<not> applicable getTime (getTime (startTime @ '':00''))
                      (getTime (endTime @ '':00'')) (ts ! j)) \<longrightarrow>
        (\<exists>pc. calculatePrice fl getTime (Inr rows) venueId day startTime endTime discountPercent
                 = Inr pc
           \<and> pc_basePrice pc =
               Math_round (num_op (d_divide fl)
                 (num_op (d_times fl)
                    (Some (if day = 0 \<or> day = 6 then or_default (TimeSlot_price_weekend (ts ! k)) 0
                           else or_default (TimeSlot_price_weekday (ts ! k)) 0))
                    (num_op (d_divide fl)
                       (num_op (-) (getTime (endTime @ '':00'')) (getTime (startTime @ '':00'')))
                       (Some (1000 * 60))))
                 (Some 60))))
   \<and> (ts = filter (\<lambda>slot. TimeSlot_venue_id slot = venueId \<and> TimeSlot_is_active slot) rows
       \<and> ts \<noteq> []
       \<and> (\<forall>slot \<in> set ts. \<not> applicable getTime (getTime (startTime @ '':00''))
                               (getTime (endTime @ '':00'')) slot) \<longrightarrow>
        calculatePrice fl getTime (Inr rows) venueId day startTime endTime discountPercent
          = Inl ''No pricing available for the selected time slot'')
   \<and> (applicable getTime a b slot \<longleftrightarrow>
        num_le (getTime (TimeSlot_start_time slot)) a \<and> num_le b (getTime (TimeSlot_end_time slot)))"
proof -
  let ?rate = "if DOW dt = 0 \<or> DOW dt = 6
               then COALESCE (v_weekend_price v) (v_base_price v) else v_base_price v"
  have sql_some: "\<exists>vts \<in> set (venue_time_slots d). slot_contains vid s vts
         \<and> calculate_venue_price d vid dt s dur =
             Inr (Some (ROUND (?rate * COALESCE (vts_price_multiplier vts) 1 * dur) 2))"
    if h: "find (\<lambda>v. v_id v = vid \<and> v_is_active v = Some True) (venues d) = Some v"
      and e: "\<exists>vts \<in> set (venue_time_slots d). slot_contains vid s vts"
  proof -
    from find_in_set[OF e] obtain y where
      y: "find (slot_contains vid s) (venue_time_slots d) = Some y"
         "y \<in> set (venue_time_slots d)" "slot_contains vid s y"
      by blast
    from calculate_venue_price_eq[OF h y(1), of dt dur] y(2,3) show ?thesis
      by (intro bexI[of _ y] conjI)
  qed
  have sql_same: "calculate_venue_price d vid dt s dur =
          Inr (Some (ROUND (?rate * COALESCE m 1 * dur) 2))"
    if h: "find (\<lambda>v. v_id v = vid \<and> v_is_active v = Some True) (venues d) = Some v"
      and e: "\<exists>vts \<in> set (venue_time_slots d). slot_contains vid s vts"
      and a: "\<forall>vts \<in> set (venue_time_slots d).
             slot_contains vid s vts \<longrightarrow> vts_price_multiplier vts = m"
  proof -
    from sql_some[OF h e] obtain y where
      y: "y \<in> set (venue_time_slots d)" "slot_contains vid s y"
         "calculate_venue_price d vid dt s dur =
             Inr (Some (ROUND (?rate * COALESCE (vts_price_multiplier y) 1 * dur) 2))"
      by blast
    from a y(1,2) have "vts_price_multiplier y = m" by blast
    with y(3) show ?thesis by simp
  qed
  have sql_err: "err = RaiseException ''Venue not found or inactive''
        \<and> find (\<lambda>v. v_id v = vid \<and> v_is_active v = Some True) (venues d) = None"
    if "calculate_venue_price d vid dt s dur = Inl err"
    using that by (rule calculate_venue_price_error)
  have ts_first: "\<exists>pc. calculatePrice fl getTime (Inr rows) venueId day startTime endTime discountPercent
                 = Inr pc
           \<and> pc_basePrice pc =
               Math_round (num_op (d_divide fl)
                 (num_op (d_times fl)
                    (Some (if day = 0 \<or> day = 6 then or_default (TimeSlot_price_weekend (ts ! k)) 0
                           else or_default (TimeSlot_price_weekday (ts ! k)) 0))
                    (num_op (d_divide fl)
                       (num_op (-) (getTime (endTime @ '':00'')) (getTime (startTime @ '':00'')))
                       (Some (1000 * 60))))
                 (Some 60))"
    if "ts = filter (\<lambda>slot. TimeSlot_venue_id slot = venueId \<and> TimeSlot_is_active slot) rows"
       "k < length ts"
       "applicable getTime (getTime (startTime @ '':00'')) (getTime (endTime @ '':00'')) (ts ! k)"
       "\<forall>j<k. \<not> applicable getTime (getTime (startTime @ '':00''))
                      (getTime (endTime @ '':00'')) (ts ! j)"
    using that(1) find_first[OF that(2,3,4)] by (intro calculatePrice_first) simp
  have ts_none: "calculatePrice fl getTime (Inr rows) venueId day startTime endTime discountPercent
          = Inl ''No pricing available for the selected time slot''"
    if "ts = filter (\<lambda>slot. TimeSlot_venue_id slot = venueId \<and> TimeSlot_is_active slot) rows"
       "ts \<noteq> []"
       "\<forall>slot \<in> set ts. \<not> applicable getTime (getTime (startTime @ '':00''))
                               (getTime (endTime @ '':00'')) slot"
    using that(1,2) find_none[OF that(3)] by (intro calculatePrice_none) simp_all
  have sc: "slot_contains vid s slot' \<longleftrightarrow>
        vts_venue_id slot' = vid \<and> vts_start_time slot' \<le> s \<and> s < vts_end_time slot'
        \<and> vts_is_available slot' = Some True"
    unfolding slot_contains_def by blast
  have ap: "applicable getTime a b slot \<longleftrightarrow>
        num_le (getTime (TimeSlot_start_time slot)) a \<and> num_le b (getTime (TimeSlot_end_time slot))"
    unfolding applicable_def by (rule refl)
  show ?thesis
    apply (intro conjI impI)
    subgoal by (rule sql_some) blast+
    subgoal by (rule sql_same) blast+
    subgoal by (rule sc)
    subgoal using sql_err by blast
    subgoal using sql_err by blast
    subgoal by (rule ts_first) blast+
    subgoal by (rule ts_none) blast+
    subgoal by (rule ap)
    done
qed

text \<open>
  On the example: 10:00 lies in one slot of venue 1, with the multiplier 1; the library
  finds the slot 11:00-12:00 for that very interval and none for 10:00-12:00.
\<close>

theorem containing_slot_priced_witness:
  "calculate_venue_price example_db 1 0 36000 1 = Inr (Some (ROUND (200000 * 1 * 1) 2))
   \<and> (\<exists>pc. calculatePrice example_arith example_getTime (Inr example_TimeSlots) ''v1'' 2
               ''11:00'' ''12:00'' 0 = Inr pc \<and> pc_basePrice pc = Some 0)
   \<and> calculatePrice example_arith example_getTime (Inr example_TimeSlots) ''v1'' 2 ''10:00''
        ''12:00'' 0 = Inl ''No pricing available for the selected time slot''"
proof -
  have sql:
    "calculate_venue_price example_db 1 0 36000 1 = Inr (Some (ROUND (200000 * 1 * 1) 2))"
    using containing_slot_priced
            [where d = example_db and vid = 1 and s = 36000 and dt = 0 and dur = 1
               and m = "Some 1"
               and v = "\<lparr>v_id = 1, v_base_price = 150000, v_weekend_price = Some 200000,
                          v_is_active = Some True\<rparr>"]
          example_find_venue_1(1)
    by (simp add: example_tables slot_contains_def DOW_def COALESCE_def)
  have ts_first:
    "\<exists>pc. calculatePrice example_arith example_getTime (Inr example_TimeSlots) ''v1'' 2
             ''11:00'' ''12:00'' 0 = Inr pc \<and> pc_basePrice pc = Some 0"
    using containing_slot_priced
            [where ts = example_TimeSlots and rows = example_TimeSlots and venueId = "''v1''"
               and k = 2 and getTime = example_getTime and startTime = "''11:00''"
               and endTime = "''12:00''" and day = 2 and discountPercent = 0
               and fl = example_arith]
    by (simp add: example_TimeSlots_def example_TimeSlot_def example_getTime_def
          applicable_def num_le_def num_op_def Math_round_def or_default_def
          less_Suc_eq numeral_2_eq_2 floor_half example_arith_def)
  have ts_none:
    "calculatePrice example_arith example_getTime (Inr example_TimeSlots) ''v1'' 2 ''10:00''
        ''12:00'' 0 = Inl ''No pricing available for the selected time slot''"
    using containing_slot_priced
            [where ts = example_TimeSlots and rows = example_TimeSlots and venueId = "''v1''"
               and getTime = example_getTime and startTime = "''10:00''"
               and endTime = "''12:00''" and day = 2 and discountPercent = 0
               and fl = example_arith]
    by (simp add: example_TimeSlots_def example_TimeSlot_def example_getTime_def
          applicable_def num_le_def)
  from sql ts_first ts_none show ?thesis by blast
qed

text \<open>
  A slot that contains the candidate start is not enough for the library: the first
  slot of the example, 10:00-10:30, is an active slot of the venue and contains 10:00,
  and the request 10:00-12:00 fails with ``No pricing available for the selected time
  slot''.
\<close>

theorem start_contained_counterexample:
  "calculatePrice example_arith example_getTime (Inr example_TimeSlots) ''v1'' 2 ''10:00''
      ''12:00'' 0 = Inl ''No pricing available for the selected time slot''
   \<and> example_TimeSlots ! 0 = example_TimeSlot ''s1'' ''10:00:00'' ''10:30:00''
   \<and> TimeSlot_venue_id (example_TimeSlot ''s1'' ''10:00:00'' ''10:30:00'') = ''v1''
   \<and> TimeSlot_is_active (example_TimeSlot ''s1'' ''10:00:00'' ''10:30:00'')
   \<and> num_le (example_getTime ''10:00:00'') (example_getTime (''10:00'' @ '':00''))
   \<and> num_lt (example_getTime (''10:00'' @ '':00'')) (example_getTime ''10:30:00'')"
  using example_pricing_lib
  by (simp add: example_TimeSlots_def example_TimeSlot_def example_getTime_def num_le_def
        num_lt_def)

subsection \<open>Cancellation\<close>

lemma cancel_reservation_cases:
  assumes r: "r \<in> set (reservations d)" "r_id r = rid"
    and pk: "\<forall>r' \<in> set (reservations d). r_id r' = rid \<longrightarrow> r' = r"
    and fk: "\<exists>p \<in> set (profiles d). p_id p = r_user_id r"
  shows "cancel_reservation now_ts d rid uid =
           (if \<not> (r_user_id r = uid \<or> (\<exists>p \<in> set (profiles d). p_id p = uid \<and> elevated (p_role p)))
            then (Inl Unauthorized, d)
            else if cancellable r
              then (Inr True,
                    d\<lparr>reservations :=
                         map (\<lambda>r'. if r_id r' = rid
                                    then r'\<lparr>r_status := Some Cancelled, r_updated_at := now_ts\<rparr>
                                    else r')
                           (reservations d)\<rparr>)
              else (Inr False, d))"
proof -
  have ex: "\<exists>r' \<in> set (reservations d). r_id r' = rid" using r by blast
  have owns: "(\<exists>r' \<in> set (reservations d). \<exists>p \<in> set (profiles d).
               p_id p = uid \<and> r_id r' = rid
               \<and> (r_user_id r' = uid \<or> elevated (p_role p)))
             \<longleftrightarrow> (r_user_id r = uid \<or> (\<exists>p \<in> set (profiles d). p_id p = uid \<and> elevated (p_role p)))"
    using r pk fk by metis
  have found: "(\<exists>r' \<in> set (reservations d). r_id r' = rid \<and> cancellable r') \<longleftrightarrow> cancellable r"
    using r pk by blast
  have upd: "map (\<lambda>r'. if r_id r' = rid \<and> cancellable r'
                           then r'\<lparr>r_status := Some Cancelled, r_updated_at := now_ts\<rparr>
                           else r') (reservations d)
             = (if cancellable r
                then map (\<lambda>r'. if r_id r' = rid
                                    then r'\<lparr>r_status := Some Cancelled, r_updated_at := now_ts\<rparr>
                                    else r') (reservations d)
                else reservations d)"
    using pk by (auto intro!: map_idI)
  show ?thesis
    unfolding cancel_reservation_def Let_def owns found upd
    using ex by (simp add: Unauthorized_def)
qed

lemma cancelled_rows:
  "\<forall>r' \<in> set (map (\<lambda>r'. if r_id r' = rid
                       then r'\<lparr>r_status := Some Cancelled, r_updated_at := now_ts\<rparr> else r') rs).
     r_id r' = rid \<longrightarrow> r_status r' = Some Cancelled"
proof (intro ballI impI)
  fix r' assume in_d': "r' \<in> set (map (\<lambda>r'. if r_id r' = rid
                       then r'\<lparr>r_status := Some Cancelled, r_updated_at := now_ts\<rparr> else r') rs)"
    and rid: "r_id r' = rid"
  from in_d' have "r' \<in> (\<lambda>r'. if r_id r' = rid
                       then r'\<lparr>r_status := Some Cancelled, r_updated_at := now_ts\<rparr> else r')
                     ` set rs"
    unfolding set_map .
  then obtain x where x: "r' = (if r_id x = rid
                       then x\<lparr>r_status := Some Cancelled, r_updated_at := now_ts\<rparr> else x)"
    by (rule imageE)
  show "r_status r' = Some Cancelled"
  proof (cases "r_id x = rid")
    case True
    with x show ?thesis by simp
  next
    case False
    with x rid show ?thesis by simp
  qed
qed

lemma example_reservation_100:
  "example_reservation 100 ''OSC200001010001'' 36000 39600 Pending \<in> set (reservations example_db)"
  "r_id (example_reservation 100 ''OSC200001010001'' 36000 39600 Pending) = 100"
  "\<forall>r' \<in> set (reservations example_db). r_id r' = 100 \<longrightarrow>
      r' = example_reservation 100 ''OSC200001010001'' 36000 39600 Pending"
  "\<exists>p \<in> set (profiles example_db).
      p_id p = r_user_id (example_reservation 100 ''OSC200001010001'' 36000 39600 Pending)"
  by (simp_all add: example_tables example_reservation_def)

lemma example_reservation_102:
  "example_reservation 102 ''OSC200001010003'' 43200 46800 Completed \<in> set (reservations example_db)"
  "r_id (example_reservation 102 ''OSC200001010003'' 43200 46800 Completed) = 102"
  "\<forall>r' \<in> set (reservations example_db). r_id r' = 102 \<longrightarrow>
      r' = example_reservation 102 ''OSC200001010003'' 43200 46800 Completed"
  "\<exists>p \<in> set (profiles example_db).
      p_id p = r_user_id (example_reservation 102 ''OSC200001010003'' 43200 46800 Completed)"
  by (simp_all add: example_tables example_reservation_def)

text \<open>
  C8. Let \<open>r\<close> be the reservation with the given id (ids are the primary key, and the
  owner of a reservation has a profile, as the foreign key on \<open>user_id\<close> demands). Then
  \<open>cancel_reservation\<close> succeeds, returning true, exactly when the acting user owns \<open>r\<close> or
  has the role staff, admin or superadmin, and the status of \<open>r\<close> is pending or
  confirmed; on success the status of \<open>r\<close> is cancelled and no other row has changed. For
  an authorised user and a reservation that is already cancelled or completed the call
  is a failure without effect: it returns false (the NotCancellable outcome) and the
  database is as before. A user who neither owns \<open>r\<close> nor has such a role gets the
  exception ``Unauthorized to cancel this reservation'', again with the database as
  before.
\<close>

theorem cancellation_rules:
  assumes "r \<in> set (reservations d)" and "r_id r = rid"
    and "\<forall>r' \<in> set (reservations d). r_id r' = rid \<longrightarrow> r' = r"
    and "\<exists>p \<in> set (profiles d). p_id p = r_user_id r"
  shows
  "(fst (cancel_reservation now_ts d rid uid) = Inr True \<longleftrightarrow>
      (r_user_id r = uid
       \<or> (\<exists>p \<in> set (profiles d). p_id p = uid
             \<and> (p_role p = Some Staff \<or> p_role p = Some Admin \<or> p_role p = Some Superadmin)))
      \<and> (r_status r = Some Pending \<or> r_status r = Some Confirmed))
   \<and> (fst (cancel_reservation now_ts d rid uid) = Inr True \<longrightarrow>
        reservations (snd (cancel_reservation now_ts d rid uid))
          = map (\<lambda>r'. if r_id r' = rid
                       then r'\<lparr>r_status := Some Cancelled, r_updated_at := now_ts\<rparr> else r')
              (reservations d)
        \<and> (\<forall>r' \<in> set (reservations (snd (cancel_reservation now_ts d rid uid))).
              r_id r' = rid \<longrightarrow> r_status r' = Some Cancelled))
   \<and> ((r_user_id r = uid
        \<or> (\<exists>p \<in> set (profiles d). p_id p = uid
              \<and> (p_role p = Some Staff \<or> p_role p = Some Admin \<or> p_role p = Some Superadmin)))
       \<and> \<not> (r_status r = Some Pending \<or> r_status r = Some Confirmed) \<longrightarrow>
        cancel_reservation now_ts d rid uid = (Inr False, d))
   \<and> (\<not> (r_user_id r = uid
           \<or> (\<exists>p \<in> set (profiles d). p_id p = uid
                 \<and> (p_role p = Some Staff \<or> p_role p = Some Admin \<or> p_role p = Some Superadmin)))
        \<longrightarrow> cancel_reservation now_ts d rid uid = (Inl Unauthorized, d))"
proof -
  define A where "A \<longleftrightarrow> r_user_id r = uid
       \<or> (\<exists>p \<in> set (profiles d). p_id p = uid
             \<and> (p_role p = Some Staff \<or> p_role p = Some Admin \<or> p_role p = Some Superadmin))"
  define C where "C \<longleftrightarrow> r_status r = Some Pending \<or> r_status r = Some Confirmed"
  define d' where "d' = d\<lparr>reservations :=
                         map (\<lambda>r'. if r_id r' = rid
                                    then r'\<lparr>r_status := Some Cancelled, r_updated_at := now_ts\<rparr>
                                    else r')
                           (reservations d)\<rparr>"
  have c: "cancel_reservation now_ts d rid uid =
             (if \<not> A then (Inl Unauthorized, d) else if C then (Inr True, d') else (Inr False, d))"
    using cancel_reservation_cases[OF assms, of now_ts uid]
    unfolding elevated_def cancellable_def A_def C_def d'_def by simp
  have one: "fst (cancel_reservation now_ts d rid uid) = Inr True \<longleftrightarrow> A \<and> C"
    by (simp add: c Unauthorized_def)
  have res: "reservations d' = map (\<lambda>r'. if r_id r' = rid
                       then r'\<lparr>r_status := Some Cancelled, r_updated_at := now_ts\<rparr> else r')
              (reservations d)"
    by (simp add: d'_def)
  have all: "\<forall>r' \<in> set (reservations d'). r_id r' = rid \<longrightarrow> r_status r' = Some Cancelled"
    unfolding res by (rule cancelled_rows)
  have two: "fst (cancel_reservation now_ts d rid uid) = Inr True \<longrightarrow>
        reservations (snd (cancel_reservation now_ts d rid uid))
          = map (\<lambda>r'. if r_id r' = rid
                       then r'\<lparr>r_status := Some Cancelled, r_updated_at := now_ts\<rparr> else r')
              (reservations d)
        \<and> (\<forall>r' \<in> set (reservations (snd (cancel_reservation now_ts d rid uid))).
              r_id r' = rid \<longrightarrow> r_status r' = Some Cancelled)"
  proof
    assume "fst (cancel_reservation now_ts d rid uid) = Inr True"
    with one have "A" "C" by simp_all
    then have s: "snd (cancel_reservation now_ts d rid uid) = d'" by (simp add: c)
    show "reservations (snd (cancel_reservation now_ts d rid uid))
          = map (\<lambda>r'. if r_id r' = rid
                       then r'\<lparr>r_status := Some Cancelled, r_updated_at := now_ts\<rparr> else r')
              (reservations d)
        \<and> (\<forall>r' \<in> set (reservations (snd (cancel_reservation now_ts d rid uid))).
              r_id r' = rid \<longrightarrow> r_status r' = Some Cancelled)"
      unfolding s by (rule conjI[OF res all])
  qed
  have three: "A \<and> \<not> C \<longrightarrow> cancel_reservation now_ts d rid uid = (Inr False, d)"
    by (simp add: c)
  have four: "\<not> A \<longrightarrow> cancel_reservation now_ts d rid uid = (Inl Unauthorized, d)"
    by (simp add: c)
  have "(fst (cancel_reservation now_ts d rid uid) = Inr True \<longleftrightarrow> A \<and> C)
   \<and> (fst (cancel_reservation now_ts d rid uid) = Inr True \<longrightarrow>
        reservations (snd (cancel_reservation now_ts d rid uid))
          = map (\<lambda>r'. if r_id r' = rid
                       then r'\<lparr>r_status := Some Cancelled, r_updated_at := now_ts\<rparr> else r')
              (reservations d)
        \<and> (\<forall>r' \<in> set (reservations (snd (cancel_reservation now_ts d rid uid))).
              r_id r' = rid \<longrightarrow> r_status r' = Some Cancelled))
   \<and> (A \<and> \<not> C \<longrightarrow> cancel_reservation now_ts d rid uid = (Inr False, d))
   \<and> (\<not> A \<longrightarrow> cancel_reservation now_ts d rid uid = (Inl Unauthorized, d))"
    using one two three four by (intro conjI)
  then show ?thesis
    unfolding A_def C_def .
qed

text \<open>
  On the example: the pending reservation 100 of user 1 is cancelled by its owner and by
  the staff member 2, not by the customer 3; the completed reservation 102 is not
  cancellable, even by its owner.
\<close>

theorem cancellation_rules_witness:
  "fst (cancel_reservation 9 example_db 100 1) = Inr True
   \<and> fst (cancel_reservation 9 example_db 100 2) = Inr True
   \<and> cancel_reservation 9 example_db 100 3 = (Inl Unauthorized, example_db)
   \<and> cancel_reservation 9 example_db 102 1 = (Inr False, example_db)"
proof -
  note pending = cancellation_rules[OF example_reservation_100, of 9]
  note completed = cancellation_rules[OF example_reservation_102, of 9]
  have owner: "fst (cancel_reservation 9 example_db 100 1) = Inr True"
    using pending[of 1, THEN conjunct1] by (simp add: example_reservation_def)
  have staff: "fst (cancel_reservation 9 example_db 100 2) = Inr True"
    using pending[of 2, THEN conjunct1] by (simp add: example_reservation_def example_tables)
  have other: "cancel_reservation 9 example_db 100 3 = (Inl Unauthorized, example_db)"
    using pending[of 3, THEN conjunct2, THEN conjunct2, THEN conjunct2]
    by (simp add: example_reservation_def example_tables)
  have finished: "cancel_reservation 9 example_db 102 1 = (Inr False, example_db)"
    using completed[of 1, THEN conjunct2, THEN conjunct2, THEN conjunct1]
    by (simp add: example_reservation_def)
  from owner staff other finished show ?thesis by (intro conjI)
qed

subsection \<open>The minimum duration of the booking form\<close>

lemma durationHours_ge_1:
  "\<not> num_lt (durationHours getTime s e) (Some 1) \<Longrightarrow> getTime s = Some a \<Longrightarrow> getTime e = Some b
     \<Longrightarrow> b - a \<ge> 3600000"
  by (simp add: durationHours_def num_op_def num_lt_def)

lemma getEndTimeOptions_loop_invariant:
  "(\<forall>e \<in> set acc. \<not> num_lt (durationHours getTime startTime e) (Some 1)) \<Longrightarrow>
     (\<forall>e \<in> set (getEndTimeOptions_loop getTime timeSlots rs startTime startIndex i acc).
        \<not> num_lt (durationHours getTime startTime e) (Some 1))"
proof (induction getTime timeSlots rs startTime startIndex i acc
        rule: getEndTimeOptions_loop.induct)
  case (1 getTime timeSlots rs startTime startIndex i acc)
  show ?case
  proof (cases "i < length timeSlots")
    case False
    then show ?thesis using "1.prems" by (subst getEndTimeOptions_loop.simps) simp
  next
    case inside: True
    let ?e = "TimeSlot_end_time (timeSlots ! i)"
    show ?thesis
    proof (cases "num_lt (durationHours getTime startTime ?e) (Some 1)")
      case True
      from "1.IH"(1)[OF inside refl refl True "1.prems"] inside True
      show ?thesis by (subst getEndTimeOptions_loop.simps) (simp add: Let_def)
    next
      case long: False
      show ?thesis
      proof (cases "list_ex (hasConflict rs) (take (i + 1 - startIndex) (drop startIndex timeSlots))")
        case True
        with inside long "1.prems" show ?thesis
          by (subst getEndTimeOptions_loop.simps) (simp add: Let_def)
      next
        case False
        have acc': "\<forall>e \<in> set (acc @ [?e]). \<not> num_lt (durationHours getTime startTime e) (Some 1)"
          using "1.prems" long by simp
        from "1.IH"(2)[OF inside refl refl long refl _ acc'] False inside long
        show ?thesis by (subst getEndTimeOptions_loop.simps) (simp add: Let_def)
      qed
    qed
  qed
qed

lemma getEndTimeOptions_invariant:
  assumes "e \<in> set (getEndTimeOptions getTime timeSlots rs startTime)"
  shows "\<not> num_lt (durationHours getTime startTime e) (Some 1)"
proof (cases "findIndex (\<lambda>slot. TimeSlot_start_time slot = startTime) timeSlots")
  case None
  with assms show ?thesis by (simp add: getEndTimeOptions_def split: if_splits)
next
  case (Some startIndex)
  with assms have "e \<in> set (getEndTimeOptions_loop getTime timeSlots rs startTime startIndex
                              startIndex [])"
    by (simp add: getEndTimeOptions_def split: if_splits)
  with getEndTimeOptions_loop_invariant[of "[]" getTime startTime timeSlots rs startIndex startIndex]
  show ?thesis by simp
qed

lemma bookingSchema_duration:
  assumes "bookingSchema getTime data"
  shows "\<exists>a b. getTime (form_startTime data) = Some a \<and> getTime (form_endTime data) = Some b
           \<and> b - a \<ge> 3600000"
proof -
  from assms have ne: "form_startTime data \<noteq> []" "form_endTime data \<noteq> []"
    and r: "bookingSchema_refine getTime data"
    by (auto simp: bookingSchema_def)
  from r ne have lt: "num_lt (getTime (form_startTime data)) (getTime (form_endTime data))"
    and le: "num_le (Some 1) (durationHours getTime (form_startTime data) (form_endTime data))"
    by (simp_all add: bookingSchema_refine_def)
  from lt obtain a b where ab: "getTime (form_startTime data) = Some a"
      "getTime (form_endTime data) = Some b"
    by (auto simp: num_lt_def split: option.splits)
  from le ab have "b - a \<ge> 3600000"
    by (simp add: durationHours_def num_op_def num_le_def)
  with ab show ?thesis by blast
qed

lemma example_end_times:
  "getEndTimeOptions example_getTime example_TimeSlots [] ''10:00:00''
     = [''11:00:00'', ''12:00:00'']"
  by (simp add: getEndTimeOptions_def example_TimeSlots_def example_TimeSlot_def
        getEndTimeOptions_loop.simps example_getTime_def durationHours_def num_op_def
        num_lt_def hasConflict_def)

lemma example_schema:
  "bookingSchema example_getTime (example_form ''2000-01-04'' ''10:00:00'' ''11:00:00'')"
  by (simp add: bookingSchema_def bookingSchema_refine_def example_form_def example_getTime_def
        durationHours_def num_op_def num_lt_def num_le_def)

text \<open>
  C10. The booking form enforces a minimum duration of one hour. Its validation schema
  accepts a submission only if both times parse and the end is at least one hour
  (3600000 ms) after the start; a submission whose end is less than one hour after its
  start is rejected, and then \<open>handleSubmit\<close> does not run \<open>onSubmit\<close>, so no reservation
  is attempted. Every end time that \<open>getEndTimeOptions\<close> offers for a start time is at
  least one hour after it.
\<close>

theorem minimum_booking_duration:
  "(bookingSchema getTime data \<longrightarrow>
      (\<exists>x y. getTime (form_startTime data) = Some x \<and> getTime (form_endTime data) = Some y
         \<and> y - x \<ge> 3600000))
   \<and> (getTime (form_startTime data) = Some a \<and> getTime (form_endTime data) = Some b
       \<and> b - a < 3600000 \<longrightarrow>
        \<not> bookingSchema getTime data \<and> handleSubmit getTime user_id vs slots data = None)
   \<and> (e \<in> set (getEndTimeOptions getTime timeSlots rs startTime) \<longrightarrow>
        \<not> num_lt (durationHours getTime startTime e) (Some 1)
        \<and> (\<forall>x y. getTime startTime = Some x \<and> getTime e = Some y \<longrightarrow> y - x \<ge> 3600000))"
proof -
  have schema: "bookingSchema getTime data \<longrightarrow>
      (\<exists>x y. getTime (form_startTime data) = Some x \<and> getTime (form_endTime data) = Some y
         \<and> y - x \<ge> 3600000)"
    using bookingSchema_duration by blast
  have reject: "\<not> bookingSchema getTime data \<and> handleSubmit getTime user_id vs slots data = None"
    if "getTime (form_startTime data) = Some a" "getTime (form_endTime data) = Some b"
       "b - a < 3600000"
  proof -
    have "\<not> bookingSchema getTime data"
    proof
      assume "bookingSchema getTime data"
      from bookingSchema_duration[OF this] that show False by auto
    qed
    then show ?thesis by (simp add: handleSubmit_def)
  qed
  have options: "\<not> num_lt (durationHours getTime startTime e) (Some 1)
        \<and> (\<forall>x y. getTime startTime = Some x \<and> getTime e = Some y \<longrightarrow> y - x \<ge> 3600000)"
    if "e \<in> set (getEndTimeOptions getTime timeSlots rs startTime)"
    using getEndTimeOptions_invariant[OF that] durationHours_ge_1 by blast
  from schema reject options show ?thesis by blast
qed

text \<open>
  On the example: 10:00 to 11:00 is accepted, 10:00 to 10:30 is rejected and not
  submitted, and for a start at 10:00 the end 10:30 is not offered while 11:00 is.
\<close>

theorem minimum_booking_duration_witness:
  "(\<exists>x y. example_getTime ''10:00:00'' = Some x \<and> example_getTime ''11:00:00'' = Some y
      \<and> y - x \<ge> 3600000)
   \<and> \<not> bookingSchema example_getTime (example_form ''2000-01-04'' ''10:00:00'' ''10:30:00'')
   \<and> handleSubmit example_getTime ''u3'' example_Venues example_TimeSlots
        (example_form ''2000-01-04'' ''10:00:00'' ''10:30:00'') = None
   \<and> \<not> num_lt (durationHours example_getTime ''10:00:00'' ''11:00:00'') (Some 1)"
proof -
  have accept: "\<exists>x y. example_getTime ''10:00:00'' = Some x \<and> example_getTime ''11:00:00'' = Some y
      \<and> y - x \<ge> 3600000"
    using minimum_booking_duration
            [where getTime = example_getTime
               and data = "example_form ''2000-01-04'' ''10:00:00'' ''11:00:00''",
             THEN conjunct1]
          example_schema
    by (simp add: example_form_def)
  have reject: "\<not> bookingSchema example_getTime (example_form ''2000-01-04'' ''10:00:00'' ''10:30:00'')
      \<and> handleSubmit example_getTime ''u3'' example_Venues example_TimeSlots
        (example_form ''2000-01-04'' ''10:00:00'' ''10:30:00'') = None"
    using minimum_booking_duration
            [where getTime = example_getTime and a = 36000000 and b = 37800000
               and data = "example_form ''2000-01-04'' ''10:00:00'' ''10:30:00''"
               and user_id = "''u3''" and vs = example_Venues and slots = example_TimeSlots,
             THEN conjunct2, THEN conjunct1]
    by (simp add: example_form_def example_getTime_def)
  have offered: "\<not> num_lt (durationHours example_getTime ''10:00:00'' ''11:00:00'') (Some 1)"
    using minimum_booking_duration
            [where getTime = example_getTime and e = "''11:00:00''"
               and timeSlots = example_TimeSlots and rs = "[]" and startTime = "''10:00:00''",
             THEN conjunct2, THEN conjunct2]
    by (simp add: example_end_times)
  from accept reject offered show ?thesis by blast
qed

end
